theory Spec2Isabelle
  imports Main
begin

section \<open>JSON values and the string primitives of the toolkit\<close>

text \<open>
  The profile records handled by \<open>AppProxy\<close> are \<open>QJsonObject\<close>s. A JSON value is one of
  the six kinds of \<open>QJsonValue\<close>; an object is kept as an association list and read with
  \<open>map_of\<close>. Numbers are the integral ones: every number the code writes is an \<open>int\<close>.
\<close>

datatype json =
    JUndefined
  | JNull
  | JBool bool
  | JNum int
  | JStr string
  | JArr "json list"
  | JObj "(string \<times> json) list"

type_synonym jobject = "(string \<times> json) list"

text \<open>\<open>QJsonObject::contains\<close>, the reading \<open>operator[]\<close> of a constant object
  (a missing key is \<open>Undefined\<close>), \<open>remove\<close> and \<open>insert\<close>, which removes the key
  when the value is \<open>Undefined\<close>. An object written as an initializer list is built by
  inserting its pairs in order.\<close>

definition contains :: "jobject \<Rightarrow> string \<Rightarrow> bool" where
  "contains obj key = (map_of obj key \<noteq> None)"

definition jvalue :: "jobject \<Rightarrow> string \<Rightarrow> json" where
  "jvalue obj key = (case map_of obj key of None \<Rightarrow> JUndefined | Some v \<Rightarrow> v)"

definition jremove :: "string \<Rightarrow> jobject \<Rightarrow> jobject" where
  "jremove key obj = filter (\<lambda>kv. fst kv \<noteq> key) obj"

fun jupdate :: "string \<Rightarrow> json \<Rightarrow> jobject \<Rightarrow> jobject" where
  "jupdate key v [] = [(key, v)]"
| "jupdate key v (kw # obj) =
     (if fst kw = key then (key, v) # obj else kw # jupdate key v obj)"

definition jinsert :: "string \<Rightarrow> json \<Rightarrow> jobject \<Rightarrow> jobject" where
  "jinsert key v obj = (if v = JUndefined then jremove key obj else jupdate key v obj)"

definition object :: "(string \<times> json) list \<Rightarrow> jobject" where
  "object kvs = foldl (\<lambda>obj kv. jinsert (fst kv) (snd kv) obj) [] kvs"

text \<open>The \<open>operator[]\<close> of an object that is not constant creates the key with the value
  \<open>Null\<close> when it is missing.\<close>

definition jref :: "string \<Rightarrow> jobject \<Rightarrow> jobject" where
  "jref key obj = (if contains obj key then obj else jupdate key JNull obj)"

text \<open>The assignment \<open>obj[key] = v\<close> takes the reference and stores the value there.\<close>

definition jassign :: "string \<Rightarrow> json \<Rightarrow> jobject \<Rightarrow> jobject" where
  "jassign key v obj = jinsert key v (jref key obj)"

text \<open>The conversions of \<open>QJsonValue\<close>: each returns its default when the value has
  another kind (\<open>toString\<close> of a number is the empty string, \<open>toInt\<close> of a string is 0).\<close>

fun toString :: "json \<Rightarrow> string" where
  "toString (JStr s) = s"
| "toString _ = []"

fun toBool :: "json \<Rightarrow> bool" where
  "toBool (JBool b) = b"
| "toBool _ = False"

definition INT_MIN :: int where "INT_MIN = - 2147483648"
definition INT_MAX :: int where "INT_MAX = 2147483647"

fun toObject :: "json \<Rightarrow> jobject" where
  "toObject (JObj obj) = obj"
| "toObject _ = []"

fun jtoInt :: "json \<Rightarrow> int" where
  "jtoInt (JNum n) = (if INT_MIN \<le> n \<and> n \<le> INT_MAX then n else 0)"
| "jtoInt _ = 0"

subsection \<open>QString\<close>

definition isDigit :: "char \<Rightarrow> bool" where
  "isDigit c = (c \<in> set ''0123456789'')"

text \<open>\<open>QChar::isSpace\<close> on the characters of one byte: tab to carriage return, the
  space, U+0085 and U+00A0.\<close>

definition isSpace :: "char \<Rightarrow> bool" where
  "isSpace c = (of_char c \<in> {9, 10, 11, 12, 13, 32, 133, 160 :: nat})"

definition trimmed :: "string \<Rightarrow> string" where
  "trimmed s = rev (dropWhile isSpace (rev (dropWhile isSpace s)))"

definition toLower_char :: "char \<Rightarrow> char" where
  "toLower_char c =
     (let n = (of_char c :: nat)
      in if (65 \<le> n \<and> n \<le> 90) \<or> (192 \<le> n \<and> n \<le> 222 \<and> n \<noteq> 215)
         then char_of (n + 32) else c)"

definition toLower :: "string \<Rightarrow> string" where
  "toLower s = map toLower_char s"

definition startsWith :: "string \<Rightarrow> string \<Rightarrow> bool" where
  "startsWith s p = (take (length p) s = p)"

text \<open>\<open>QString::indexOf\<close> (\<open>-1\<close> when the character does not occur),
  \<open>QString::mid(position, n)\<close> and \<open>QString::left(n)\<close>, with what they return for
  positions and lengths out of range: \<open>mid\<close> from a position beyond the end is empty, a
  negative \<open>n\<close> or one that is too large takes the rest, and \<open>left\<close> of a negative
  \<open>n\<close> is the whole string.\<close>

fun indexOf :: "string \<Rightarrow> char \<Rightarrow> int" where
  "indexOf [] ch = - 1"
| "indexOf (c # cs) ch =
     (if c = ch then 0 else (let i = indexOf cs ch in if i < 0 then - 1 else i + 1))"

definition mid :: "string \<Rightarrow> int \<Rightarrow> int \<Rightarrow> string" where
  "mid s position n =
     (let len = int (length s)
      in if position > len then []
         else if position < 0 then
           (if n < 0 \<or> n + position \<ge> len then s
            else if n + position \<le> 0 then []
            else take (nat (n + position)) s)
         else if n < 0 \<or> n > len - position then drop (nat position) s
         else take (nat n) (drop (nat position) s))"

definition left :: "string \<Rightarrow> int \<Rightarrow> string" where
  "left s n = (if n < 0 \<or> n \<ge> int (length s) then s else take (nat n) s)"

text \<open>\<open>QString::split(sep)\<close> with the default \<open>KeepEmptyParts\<close>: the result is never
  empty, and an empty string gives one empty part.\<close>

fun split :: "char \<Rightarrow> string \<Rightarrow> string list" where
  "split sep [] = [[]]"
| "split sep (c # cs) =
     (if c = sep then [] # split sep cs
      else (case split sep cs of
              p # ps \<Rightarrow> (c # p) # ps
            | [] \<Rightarrow> [[c]]))"

text \<open>\<open>QStringList::join\<close>.\<close>

fun join :: "string \<Rightarrow> string list \<Rightarrow> string" where
  "join sep [] = []"
| "join sep [s] = s"
| "join sep (s # t # ss) = s @ sep @ join sep (t # ss)"

text \<open>\<open>QString::number(int)\<close>: the decimal digits, with a minus sign for a negative
  number.\<close>

function digits_of :: "int \<Rightarrow> string" where
  "digits_of n =
     (if n < 10 then [char_of (48 + n)]
      else digits_of (n div 10) @ [char_of (48 + n mod 10)])"
  by pat_completeness auto
termination
  by (relation "measure nat") auto

definition number :: "int \<Rightarrow> string" where
  "number i = (if i < 0 then CHR ''-'' # digits_of (- i) else digits_of i)"

text \<open>\<open>QString::toInt(&ok)\<close> in base 10: surrounding white space is ignored, one sign is
  allowed, the rest must be decimal digits and the value must fit an \<open>int\<close>. \<open>None\<close> is
  \<open>ok = false\<close> (the C++ value is then 0).\<close>

fun digits_value :: "int \<Rightarrow> string \<Rightarrow> int" where
  "digits_value acc [] = acc"
| "digits_value acc (c # cs) = digits_value (acc * 10 + (of_char c - 48)) cs"

definition signed_digits :: "string \<Rightarrow> bool \<times> string" where
  "signed_digits t =
     (case t of
        [] \<Rightarrow> (False, [])
      | c # cs \<Rightarrow> if c = CHR ''-'' then (True, cs)
                 else if c = CHR ''+'' then (False, cs) else (False, t))"

definition toInt_ok :: "string \<Rightarrow> int option" where
  "toInt_ok s =
     (let (neg, ds) = signed_digits (trimmed s)
      in if ds = [] \<or> \<not> list_all isDigit ds then None
         else let v = (if neg then - digits_value 0 ds else digits_value 0 ds)
              in if INT_MIN \<le> v \<and> v \<le> INT_MAX then Some v else None)"

definition toInt :: "string \<Rightarrow> int" where
  "toInt s = (case toInt_ok s of None \<Rightarrow> 0 | Some v \<Rightarrow> v)"

subsection \<open>Toolkit calls that are parameters\<close>

text \<open>The calls into the toolkit whose results the code only passes on: the JSON parser
  (\<open>QJsonDocument::fromJson(...).object()\<close>), \<open>QByteArray::fromBase64\<close>,
  \<open>QUrl::fromPercentEncoding\<close>, \<open>QUrlQuery(...).queryItems()\<close> and the file system
  behind \<open>QDir(path).exists()\<close>. They are parameters of the model.\<close>

record qt =
  fromJson :: "string \<Rightarrow> jobject"
  fromBase64 :: "string \<Rightarrow> string"
  fromPercentEncoding :: "string \<Rightarrow> string"
  queryItems :: "string \<Rightarrow> (string \<times> string) list"
  dirExists :: "string \<Rightarrow> bool"

section \<open>Validator\<close>

text \<open>\<open>tr\<close> is the identity here: the messages are the source texts.\<close>

definition msgMissing :: "string \<Rightarrow> string" where
  "msgMissing name = ''Missing the value of '' @ [CHR 0x27] @ name @ [CHR 0x27] @ ''.''"

definition msgInvalid :: "string \<Rightarrow> string" where
  "msgInvalid name = ''The value of '' @ [CHR 0x27] @ name @ [CHR 0x27] @ '' seems invalid.''"

definition msgAbove :: "string \<Rightarrow> int \<Rightarrow> string" where
  "msgAbove name lowerBound =
     ''The value of '' @ [CHR 0x27] @ name @ [CHR 0x27] @ '' should above ''
       @ number lowerBound @ ''.''"

definition msgBetween :: "string \<Rightarrow> int \<Rightarrow> int \<Rightarrow> string" where
  "msgBetween name lowerBound upperBound =
     ''The value of '' @ [CHR 0x27] @ name @ [CHR 0x27] @ '' should between ''
       @ number lowerBound @ '' and '' @ number upperBound @ ''.''"

text \<open>\<open>AppProxy::getStringConfigError\<close>. The loop over the checkpoints sets
  \<open>isMatched\<close> at every checkpoint that accepts the value.\<close>

fun checkpointsLoop :: "(string \<Rightarrow> bool) list \<Rightarrow> string \<Rightarrow> bool \<Rightarrow> bool" where
  "checkpointsLoop [] s isMatched = isMatched"
| "checkpointsLoop (ckpt # checkpoints) s isMatched =
     checkpointsLoop checkpoints s (if ckpt s then True else isMatched)"

definition getStringConfigError ::
  "jobject \<Rightarrow> string \<Rightarrow> string \<Rightarrow> (string \<Rightarrow> bool) list \<Rightarrow> string" where
  "getStringConfigError serverConfig key name checkpoints =
     (if \<not> contains serverConfig key \<or> toString (jvalue serverConfig key) = []
      then msgMissing name
      else if length checkpoints > 0
      then (let isMatched = checkpointsLoop checkpoints (toString (jvalue serverConfig key)) False
            in if \<not> isMatched then msgInvalid name else [])
      else [])"

text \<open>\<open>AppProxy::isIpAddrValid\<close>: the regular expression
  \<^verbatim>\<open>^((O)\.){3}(O)$\<close> with \<^verbatim>\<open>O = [0-9]|[1-9][0-9]|1[0-9]{2}|2[0-4][0-9]|25[0-5]\<close>.
  No octet holds a dot, so a match is four dot-separated octets. A \<^verbatim>\<open>$\<close> of the
  regular expression also matches before one final line feed.\<close>

fun isOctet :: "string \<Rightarrow> bool" where
  "isOctet [a] = isDigit a"
| "isOctet [a, b] = (a \<in> set ''123456789'' \<and> isDigit b)"
| "isOctet [a, b, c] =
     ((a = CHR ''1'' \<and> isDigit b \<and> isDigit c)
      \<or> (a = CHR ''2'' \<and> b \<in> set ''01234'' \<and> isDigit c)
      \<or> (a = CHR ''2'' \<and> b = CHR ''5'' \<and> c \<in> set ''012345''))"
| "isOctet _ = False"

definition dropFinalNewline :: "string \<Rightarrow> string" where
  "dropFinalNewline s = (if s \<noteq> [] \<and> last s = CHR 0x0A then butlast s else s)"

definition matchesIpAddr :: "string \<Rightarrow> bool" where
  "matchesIpAddr s = (let parts = split CHR ''.'' s in length parts = 4 \<and> list_all isOctet parts)"

definition isIpAddrValid :: "string \<Rightarrow> bool" where
  "isIpAddrValid ipAddr = (matchesIpAddr ipAddr \<or> matchesIpAddr (dropFinalNewline ipAddr))"

text \<open>\<open>AppProxy::isDomainNameValid\<close>: the regular expression
  \<^verbatim>\<open>^(?:[a-z0-9](?:[a-z0-9-]{0,61}[a-z0-9])?\.)+[a-z0-9][a-z0-9-]{0,61}[a-z0-9]$\<close>:
  one or more labels of 1 to 63 characters, each followed by a dot, then a last label of
  2 to 63 characters; a label starts and ends with a lower-case letter or a digit and has
  letters, digits and hyphens in between.\<close>

definition isAlnum :: "char \<Rightarrow> bool" where
  "isAlnum c = (c \<in> set ''abcdefghijklmnopqrstuvwxyz0123456789'')"

definition isLabel :: "string \<Rightarrow> bool" where
  "isLabel l =
     (l \<noteq> [] \<and> length l \<le> 63 \<and> isAlnum (hd l) \<and> isAlnum (last l)
      \<and> list_all (\<lambda>c. isAlnum c \<or> c = CHR ''-'') l)"

definition matchesDomainName :: "string \<Rightarrow> bool" where
  "matchesDomainName s =
     (let parts = split CHR ''.'' s
      in length parts \<ge> 2 \<and> list_all isLabel parts \<and> length (last parts) \<ge> 2)"

definition isDomainNameValid :: "string \<Rightarrow> bool" where
  "isDomainNameValid domainName =
     (matchesDomainName domainName \<or> matchesDomainName (dropFinalNewline domainName))"

text \<open>\<open>AppProxy::getNumericConfigError\<close>.\<close>

definition getNumericConfigError ::
  "jobject \<Rightarrow> string \<Rightarrow> string \<Rightarrow> int \<Rightarrow> int \<Rightarrow> string" where
  "getNumericConfigError serverConfig key name lowerBound upperBound =
     (if \<not> contains serverConfig key \<or> toString (jvalue serverConfig key) = []
      then msgMissing name
      else (case toInt_ok (toString (jvalue serverConfig key)) of
              None \<Rightarrow> msgInvalid name
            | Some v \<Rightarrow>
                if upperBound = - 127 \<and> v < lowerBound then msgAbove name lowerBound
                else if v < lowerBound \<or> v > upperBound
                then msgBetween name lowerBound upperBound
                else []))"

text \<open>\<open>AppProxy::isFileExists\<close>.\<close>

definition isFileExists :: "qt \<Rightarrow> string \<Rightarrow> bool" where
  "isFileExists q filePath = dirExists q filePath"

text \<open>\<open>AppProxy::getV2RayStreamSettingsErrors\<close>.\<close>

definition getV2RayStreamSettingsErrors :: "qt \<Rightarrow> jobject \<Rightarrow> string \<Rightarrow> string list" where
  "getV2RayStreamSettingsErrors q serverConfig network =
     (if network = ''kcp'' then
        [ getNumericConfigError serverConfig ''kcpMtu'' ''MTU'' 576 1460,
          getNumericConfigError serverConfig ''kcpTti'' ''TTI'' 10 100,
          getNumericConfigError serverConfig ''kcpUpLink'' ''Uplink Capacity'' 0 (- 127),
          getNumericConfigError serverConfig ''kcpDownLink'' ''Downlink Capacity'' 0 (- 127),
          getNumericConfigError serverConfig ''kcpReadBuffer'' ''Read Buffer Size'' 0 (- 127),
          getNumericConfigError serverConfig ''kcpWriteBuffer'' ''Write Buffer Size'' 0 (- 127),
          getStringConfigError serverConfig ''packetHeader'' ''Packet Header'' [] ]
      else if network = ''ws'' \<or> network = ''http'' then
        [ getStringConfigError serverConfig ''networkHost'' ''Host'' [isDomainNameValid],
          getStringConfigError serverConfig ''networkPath'' ''Path'' [] ]
      else if network = ''domainsocket'' then
        [ getStringConfigError serverConfig ''domainSocketFilePath'' ''Socket File Path''
            [isFileExists q] ]
      else if network = ''quic'' then
        [ getStringConfigError serverConfig ''quicSecurity'' ''QUIC Security'' [],
          getStringConfigError serverConfig ''packetHeader'' ''Packet Header'' [],
          getStringConfigError serverConfig ''quicKey'' ''QUIC Key'' [] ]
      else [])"

text \<open>\<open>AppProxy::getV2RayServerConfigErrors\<close> and
  \<open>AppProxy::getShadowsocksServerConfigErrors\<close>: every rule appends its message, empty
  ones are removed at the end.\<close>

definition getV2RayServerConfigErrors :: "qt \<Rightarrow> jobject \<Rightarrow> string list" where
  "getV2RayServerConfigErrors q serverConfig =
     removeAll []
       ([ getStringConfigError serverConfig ''serverName'' ''Server Name'' [],
          getStringConfigError serverConfig ''serverAddr'' ''Server Address''
            [isIpAddrValid, isDomainNameValid],
          getNumericConfigError serverConfig ''serverPort'' ''Server Port'' 0 65535,
          getStringConfigError serverConfig ''id'' ''ID'' [],
          getNumericConfigError serverConfig ''alterId'' ''Alter ID'' 0 65535,
          getStringConfigError serverConfig ''security'' ''Security'' [],
          getNumericConfigError serverConfig ''mux'' ''MUX'' (- 1) 1024,
          getStringConfigError serverConfig ''network'' ''Network'' [],
          getStringConfigError serverConfig ''networkSecurity'' ''Network Security'' [] ]
        @ getV2RayStreamSettingsErrors q serverConfig
            (toString (jvalue serverConfig ''network'')))"

definition getShadowsocksServerConfigErrors :: "jobject \<Rightarrow> string list" where
  "getShadowsocksServerConfigErrors serverConfig =
     removeAll []
       [ getStringConfigError serverConfig ''serverName'' ''Server Name'' [],
         getStringConfigError serverConfig ''serverAddr'' ''Server Address''
           [isIpAddrValid, isDomainNameValid],
         getNumericConfigError serverConfig ''serverPort'' ''Server Port'' 0 65535,
         getStringConfigError serverConfig ''encryption'' ''Security'' [],
         getStringConfigError serverConfig ''password'' ''Password'' [] ]"

text \<open>\<open>AppProxy::getServerConfigErrors\<close>.\<close>

definition getServerConfigErrors :: "qt \<Rightarrow> jobject \<Rightarrow> string \<Rightarrow> string list" where
  "getServerConfigErrors q serverConfig protocol =
     (if protocol = ''vmess'' then getV2RayServerConfigErrors q serverConfig
      else if protocol = ''shadowsocks'' then getShadowsocksServerConfigErrors serverConfig
      else [''Unknown Protocol: '' @ protocol])"

text \<open>\<open>AppProxy::getAppConfigErrors\<close>. The loop over the DNS servers appends one message
  at the first entry that is not an IPv4 literal and stops.\<close>

definition msgSamePort :: string where
  "msgSamePort =
     [CHR 0x27] @ ''PAC Server Port'' @ [CHR 0x27] @ '' can not be the same as ''
       @ [CHR 0x27] @ ''Listening Port'' @ [CHR 0x27] @ ''.''"

fun dnsErrors :: "string list \<Rightarrow> string list" where
  "dnsErrors [] = []"
| "dnsErrors (dnsServer # dnsServers) =
     (if \<not> isIpAddrValid (trimmed dnsServer)
      then [[CHR 0x27] @ ''DNS Servers'' @ [CHR 0x27] @ '' seems invalid.'']
      else dnsErrors dnsServers)"

definition getAppConfigErrors :: "jobject \<Rightarrow> string list" where
  "getAppConfigErrors appConfig =
     removeAll []
       ([ getStringConfigError appConfig ''language'' ''Language'' [],
          getStringConfigError appConfig ''serverProtocol'' ''Local Server Protocol'' [],
          getStringConfigError appConfig ''serverIp'' ''Listening IP Address'' [isIpAddrValid],
          getNumericConfigError appConfig ''serverPort'' ''Listening Port'' 1 65535,
          getNumericConfigError appConfig ''pacPort'' ''PAC Server Port'' 1 65535 ]
        @ (if toString (jvalue appConfig ''pacPort'') = toString (jvalue appConfig ''serverPort'')
           then [msgSamePort] else [])
        @ (if \<not> contains appConfig ''dns'' \<or> toString (jvalue appConfig ''dns'') = []
           then [msgMissing ''DNS Servers'']
           else dnsErrors (split CHR '','' (toString (jvalue appConfig ''dns'')))))"

section \<open>Config builder\<close>

text \<open>\<open>std::rand\<close> reads and advances a hidden generator. The generator is the
  sequence of the results it will give, none of them negative; a call takes the first.\<close>

type_synonym rng = "nat \<Rightarrow> int"

definition rand :: "rng \<Rightarrow> int \<times> rng" where
  "rand r = (r 0, \<lambda>i. r (Suc i))"

definition OPERATING_SYSTEMS :: "string list" where
  "OPERATING_SYSTEMS =
     [''Macintosh; Intel Mac OS X 10_15'', ''X11; Linux x86_64'', ''Windows NT 10.0; Win64; x64'']"

text \<open>\<open>AppProxy::getRandomUserAgents\<close>: four draws for each of the \<open>n\<close> strings;
  \<open>userAgent\<close> is the string that the body of the loop appends.\<close>

definition userAgent :: "int \<Rightarrow> int \<Rightarrow> int \<Rightarrow> int \<Rightarrow> string" where
  "userAgent d1 d2 d3 d4 =
     (let osIndex = d1 mod 3;
          chromeMajorVersion = d2 mod 30 + 50;
          chromeBuildVersion = d3 mod 4000 + 1000;
          chromePatchVersion = d4 mod 100
      in ''Mozilla/5.0 ('' @ OPERATING_SYSTEMS ! nat osIndex
           @ '') AppleWebKit/537.36 (KHTML, like Gecko) Chrome/'' @ number chromeMajorVersion
           @ ''.0.'' @ number chromeBuildVersion @ ''.'' @ number chromePatchVersion
           @ '' Safari/537.36'')"

fun getRandomUserAgents :: "nat \<Rightarrow> rng \<Rightarrow> json list \<times> rng" where
  "getRandomUserAgents 0 r = ([], r)"
| "getRandomUserAgents (Suc n) r =
     (let (d1, r1) = rand r;
          (d2, r2) = rand r1;
          (d3, r3) = rand r2;
          (d4, r4) = rand r3;
          (userAgents, r') = getRandomUserAgents n r4
      in (JStr (userAgent d1 d2 d3 d4) # userAgents, r'))"

text \<open>\<open>AppProxy::getV2RayStreamSettingsConfig\<close>.\<close>

definition tcpRequest :: "json list \<Rightarrow> json" where
  "tcpRequest userAgents =
     JObj (object
       [(''version'', JStr ''1.1''),
        (''method'', JStr ''GET''),
        (''path'', JArr [JStr ''/'']),
        (''headers'', JObj (object
           [(''host'', JArr (map JStr
               [''www.baidu.com'', ''www.bing.com'', ''www.163.com'', ''www.netease.com'',
                ''www.qq.com'', ''www.tencent.com'', ''www.taobao.com'', ''www.tmall.com'',
                ''www.alibaba-inc.com'', ''www.aliyun.com'', ''www.sensetime.com'',
                ''www.megvii.com''])),
            (''User-Agent'', JArr userAgents),
            (''Accept-Encoding'', JArr [JStr ''gzip, deflate'']),
            (''Connection'', JArr [JStr ''keep-alive'']),
            (''Pragma'', JStr ''no-cache'')]))])"

definition tcpResponse :: json where
  "tcpResponse =
     JObj (object
       [(''version'', JStr ''1.1''),
        (''status'', JStr ''200''),
        (''reason'', JStr ''OK''),
        (''headers'', JObj (object
           [(''Content-Type'', JArr [JStr ''text/html;charset=utf-8'']),
            (''Transfer-Encoding'', JArr [JStr ''chunked'']),
            (''Connection'', JArr [JStr ''keep-alive'']),
            (''Pragma'', JStr ''no-cache'')]))])"

definition getV2RayStreamSettingsConfig :: "rng \<Rightarrow> jobject \<Rightarrow> jobject \<times> rng" where
  "getV2RayStreamSettingsConfig r serverConfig =
     (let network = toString (jvalue serverConfig ''network'');
          streamSettings = object
            [(''network'', jvalue serverConfig ''network''),
             (''security'', JStr (toLower (toString (jvalue serverConfig ''networkSecurity'')))),
             (''tlsSettings'', JObj (object
                [(''allowInsecure'', JBool (toBool (jvalue serverConfig ''allowInsecure'')))]))]
      in if network = ''tcp'' then
           (let tcpHeaderType = toLower (toString (jvalue serverConfig ''tcpHeaderType''));
                tcpSettings = object [(''type'', JStr tcpHeaderType)]
            in if tcpHeaderType = ''http'' then
                 (let (userAgents, r') = getRandomUserAgents 24 r
                  in (jinsert ''tcpSettings''
                        (JObj (jinsert ''response'' tcpResponse
                                (jinsert ''request'' (tcpRequest userAgents) tcpSettings)))
                        streamSettings, r'))
               else (jinsert ''tcpSettings'' (JObj tcpSettings) streamSettings, r))
         else if network = ''kcp'' then
           (jinsert ''kcpSettings''
              (JObj (object
                 [(''mtu'', JNum (toInt (toString (jvalue serverConfig ''kcpMtu'')))),
                  (''tti'', JNum (toInt (toString (jvalue serverConfig ''kcpTti'')))),
                  (''uplinkCapacity'', JNum (toInt (toString (jvalue serverConfig ''kcpUpLink'')))),
                  (''downlinkCapacity'',
                     JNum (toInt (toString (jvalue serverConfig ''kcpDownLink'')))),
                  (''congestion'', JBool (toBool (jvalue serverConfig ''kcpCongestion''))),
                  (''readBufferSize'',
                     JNum (toInt (toString (jvalue serverConfig ''kcpReadBuffer'')))),
                  (''writeBufferSize'',
                     JNum (toInt (toString (jvalue serverConfig ''kcpWriteBuffer'')))),
                  (''header'', JObj (object
                     [(''type'',
                       JStr (toLower (toString (jvalue serverConfig ''packetHeader''))))]))]))
              streamSettings, r)
         else if network = ''ws'' then
           (jinsert ''wsSettings''
              (JObj (object
                 [(''path'', JStr (toString (jvalue serverConfig ''networkPath''))),
                  (''headers'', JObj (object [(''host'', jvalue serverConfig ''networkHost'')]))]))
              streamSettings, r)
         else if network = ''http'' then
           (jinsert ''httpSettings''
              (JObj (object
                 [(''host'', JArr [JStr (toString (jvalue serverConfig ''networkHost''))]),
                  (''path'', JArr [JStr (toString (jvalue serverConfig ''networkPath''))])]))
              streamSettings, r)
         else if network = ''domainsocket'' then
           (jinsert ''dsSettings''
              (JObj (object
                 [(''path'', JStr (toString (jvalue serverConfig ''domainSocketFilePath'')))]))
              streamSettings, r)
         else if network = ''quic'' then
           (jinsert ''quicSettings''
              (JObj (object
                 [(''security'', JStr (toLower (toString (jvalue serverConfig ''quicSecurity'')))),
                  (''key'', JStr (toString (jvalue serverConfig ''quicKey''))),
                  (''header'', JObj (object
                     [(''type'',
                       JStr (toLower (toString (jvalue serverConfig ''packetHeader''))))]))]))
              streamSettings, r)
         else (streamSettings, r))"

text \<open>\<open>AppProxy::getPrettyV2RayConfig\<close>.\<close>

definition getPrettyV2RayConfig :: "rng \<Rightarrow> jobject \<Rightarrow> jobject \<times> rng" where
  "getPrettyV2RayConfig r serverConfig =
     (let v2RayConfig = object
            [(''autoConnect'', JBool (toBool (jvalue serverConfig ''autoConnect''))),
             (''serverName'', JStr (toString (jvalue serverConfig ''serverName''))),
             (''subscription'',
                JStr (if contains serverConfig ''subscription''
                      then toString (jvalue serverConfig ''subscription'') else [])),
             (''protocol'', JStr ''vmess''),
             (''mux'', JObj (object
                [(''enabled'', JBool (toInt (toString (jvalue serverConfig ''mux'')) \<noteq> 1)),
                 (''concurrency'', JNum (toInt (toString (jvalue serverConfig ''mux''))))])),
             (''settings'', JObj (object
                [(''vnext'', JArr [JObj (object
                   [(''address'', JStr (toString (jvalue serverConfig ''serverAddr''))),
                    (''port'', JNum (toInt (toString (jvalue serverConfig ''serverPort'')))),
                    (''users'', JArr [JObj (object
                       [(''id'', JStr (toString (jvalue serverConfig ''id''))),
                        (''alterId'', JNum (toInt (toString (jvalue serverConfig ''alterId'')))),
                        (''security'',
                           JStr (toLower (toString (jvalue serverConfig ''security''))))])])])])])),
             (''tag'', JStr ''proxy-vmess'')];
          (streamSettings, r') = getV2RayStreamSettingsConfig r serverConfig
      in (jinsert ''streamSettings'' (JObj streamSettings) v2RayConfig, r'))"

text \<open>\<open>AppProxy::getPrettyShadowsocksConfig\<close>.\<close>

definition getPrettyShadowsocksConfig :: "jobject \<Rightarrow> jobject" where
  "getPrettyShadowsocksConfig serverConfig =
     object
       [(''autoConnect'', JBool (toBool (jvalue serverConfig ''autoConnect''))),
        (''serverName'', JStr (toString (jvalue serverConfig ''serverName''))),
        (''subscription'',
           JStr (if contains serverConfig ''subscription''
                 then toString (jvalue serverConfig ''subscription'') else [])),
        (''protocol'', JStr ''shadowsocks''),
        (''settings'', JObj (object
           [(''servers'', JArr [JObj (object
              [(''address'', JStr (toString (jvalue serverConfig ''serverAddr''))),
               (''port'', JNum (toInt (toString (jvalue serverConfig ''serverPort'')))),
               (''method'', JStr (toLower (toString (jvalue serverConfig ''encryption'')))),
               (''password'', JStr (toString (jvalue serverConfig ''password'')))])])])),
        (''streamSettings'', JObj (object [(''network'', JStr ''tcp'')])),
        (''tag'', JStr ''proxy-shadowsocks'')]"

text \<open>\<open>AppProxy::getPrettyServerConfig\<close>.\<close>

definition getPrettyServerConfig :: "rng \<Rightarrow> jobject \<Rightarrow> string \<Rightarrow> jobject \<times> rng" where
  "getPrettyServerConfig r serverConfig protocol =
     (if protocol = ''vmess'' then getPrettyV2RayConfig r serverConfig
      else if protocol = ''shadowsocks'' then (getPrettyShadowsocksConfig serverConfig, r)
      else ([], r))"

section \<open>Codec\<close>

definition NETWORK_MAPPER :: "(string \<times> string) list" where
  "NETWORK_MAPPER =
     [(''tcp'', ''tcp''), (''kcp'', ''kcp''), (''ws'', ''ws''), (''h2'', ''http''),
      (''quic'', ''quic'')]"

text \<open>\<open>AppProxy::getV2RayServerFromUrl\<close>.\<close>

definition getV2RayServerFromUrl :: "qt \<Rightarrow> string \<Rightarrow> string \<Rightarrow> jobject" where
  "getV2RayServerFromUrl q server subscriptionUrl =
     (let rawServerConfig = fromJson q (fromBase64 q (mid server 8 (- 1)));
          network = (if contains rawServerConfig ''net''
                     then toString (jvalue rawServerConfig ''net'') else ''tcp'');
          serverAddr = (if contains rawServerConfig ''add''
                        then toString (jvalue rawServerConfig ''add'') else [])
      in object
           [(''autoConnect'', JBool False),
            (''serverName'',
               JStr (if contains rawServerConfig ''ps''
                     then toString (jvalue rawServerConfig ''ps'') else serverAddr)),
            (''serverAddr'', JStr serverAddr),
            (''serverPort'',
               JNum (if contains rawServerConfig ''port''
                     then jtoInt (jvalue rawServerConfig ''port'') else 0)),
            (''subscription'', JStr subscriptionUrl),
            (''id'',
               JStr (if contains rawServerConfig ''id''
                     then toString (jvalue rawServerConfig ''id'') else [])),
            (''alterId'',
               JNum (if contains rawServerConfig ''aid''
                     then toInt (toString (jvalue rawServerConfig ''aid'')) else 0)),
            (''mux'', JNum (- 1)),
            (''security'', JStr ''auto''),
            (''network'',
               JStr (case map_of NETWORK_MAPPER network of
                       Some n \<Rightarrow> n
                     | None \<Rightarrow> ''tcp'')),
            (''networkHost'',
               JStr (if contains rawServerConfig ''host''
                     then toString (jvalue rawServerConfig ''host'') else [])),
            (''networkPath'',
               JStr (if contains rawServerConfig ''path''
                     then toString (jvalue rawServerConfig ''path'') else [])),
            (''tcpHeaderType'',
               JStr (if contains rawServerConfig ''type''
                     then toString (jvalue rawServerConfig ''type'') else [])),
            (''networkSecurity'',
               JStr (if contains rawServerConfig ''tls'' then ''tls'' else ''none''))])"

text \<open>\<open>AppProxy::getShadowsocksServerFromUrl\<close>. The two nested loops collect the
  \<open>key=value\<close> parts of every \<open>plugin\<close> query item.\<close>

fun obfsFromParts :: "string list \<Rightarrow> jobject \<Rightarrow> jobject" where
  "obfsFromParts [] obfsOptions = obfsOptions"
| "obfsFromParts (ob # obfs) obfsOptions =
     (let t = split CHR ''='' ob
      in obfsFromParts obfs
           (if length t = 2 then jassign (t ! 0) (JStr (t ! 1)) obfsOptions
            else obfsOptions))"

fun obfsFromItems :: "qt \<Rightarrow> (string \<times> string) list \<Rightarrow> jobject \<Rightarrow> jobject" where
  "obfsFromItems q [] obfsOptions = obfsOptions"
| "obfsFromItems q (p # items) obfsOptions =
     obfsFromItems q items
       (if fst p = ''plugin''
        then obfsFromParts (split CHR '';'' (fromPercentEncoding q (snd p))) obfsOptions
        else obfsOptions)"

definition getShadowsocksServerFromUrl :: "qt \<Rightarrow> string \<Rightarrow> string \<Rightarrow> jobject" where
  "getShadowsocksServerFromUrl q serverUrl0 subscriptionUrl =
     (let serverUrl = mid serverUrl0 5 (- 1);
          atIndex = indexOf serverUrl CHR ''@'';
          colonIndex = indexOf serverUrl CHR '':'';
          splashIndex = indexOf serverUrl CHR ''/'';
          sharpIndex = indexOf serverUrl CHR ''#'';
          questionMarkIndex = indexOf serverUrl CHR ''?'';
          confidential = fromBase64 q (left serverUrl atIndex);
          serverAddr = mid serverUrl (atIndex + 1) (colonIndex - atIndex - 1);
          serverPort = toInt (mid serverUrl (colonIndex + 1) (splashIndex - colonIndex - 1));
          options = mid serverUrl (questionMarkIndex + 1) (sharpIndex - questionMarkIndex - 1);
          serverName = fromPercentEncoding q (mid serverUrl (sharpIndex + 1) (- 1));
          colonIndex' = indexOf confidential CHR '':'';
          encryption = left confidential colonIndex';
          password = mid confidential (colonIndex' + 1) (- 1);
          serverConfig = object
            [(''serverName'', JStr serverName),
             (''autoConnect'', JBool False),
             (''subscription'', JStr subscriptionUrl),
             (''serverAddr'', JStr serverAddr),
             (''serverPort'', JNum serverPort),
             (''encryption'', JStr encryption),
             (''password'', JStr password)];
          obfsOptions = obfsFromItems q (queryItems q options) []
      in if length obfsOptions > 0
         then jassign ''obfs'' (JObj obfsOptions) serverConfig
         else serverConfig)"

section \<open>The profile store and the state of \<open>AppProxy\<close>\<close>

text \<open>What the \<open>Configurator\<close> keeps: the application settings and the list of
  profiles.\<close>

record store =
  storedAppConfig :: jobject
  storedServers :: "jobject list"

text \<open>Modelled from the spec: \<open>Configurator::setAppConfig\<close>, of which the repository under
  study holds only the calls. The settings are "mutated by validated partial updates":
  every key of the update replaces the stored value of that key.\<close>

definition configurator_setAppConfig :: "jobject \<Rightarrow> store \<Rightarrow> store" where
  "configurator_setAppConfig appConfig st =
     st\<lparr>storedAppConfig :=
          foldl (\<lambda>obj kv. jinsert (fst kv) (snd kv) obj) (storedAppConfig st) appConfig\<rparr>"

text \<open>Modelled from the spec: \<open>Configurator::addServer\<close>, of which the repository under
  study holds only the calls. The profile is persisted: it joins the stored list.\<close>

definition configurator_addServer :: "jobject \<Rightarrow> store \<Rightarrow> store" where
  "configurator_addServer serverConfig st =
     st\<lparr>storedServers := storedServers st @ [serverConfig]\<rparr>"

text \<open>Modelled from the spec: \<open>Configurator::removeSubscriptionServers\<close>, of which the
  repository under study holds only the calls: "look up and remove all currently-stored
  profiles whose \<open>subscriptionSource == url\<close>, retaining each removed profile's
  \<open>autoConnect\<close> flag keyed by name". The removed profiles are returned as a map from
  their names.\<close>

definition subscriptionSource :: "jobject \<Rightarrow> string" where
  "subscriptionSource server = toString (jvalue server ''subscription'')"

definition profileName :: "jobject \<Rightarrow> string" where
  "profileName server = toString (jvalue server ''serverName'')"

definition configurator_removeSubscriptionServers ::
  "string \<Rightarrow> store \<Rightarrow> (string \<rightharpoonup> jobject) \<times> store" where
  "configurator_removeSubscriptionServers subscriptionUrl st =
     (foldl (\<lambda>removedServers server. removedServers(profileName server \<mapsto> server)) Map.empty
        (filter (\<lambda>server. subscriptionSource server = subscriptionUrl) (storedServers st)),
      st\<lparr>storedServers :=
           filter (\<lambda>server. subscriptionSource server \<noteq> subscriptionUrl) (storedServers st)\<rparr>)"

text \<open>The two other calls into the \<open>Configurator\<close>, \<open>editServer\<close> (which says whether it
  edited the profile) and \<open>getConnectedServerNames\<close>, are parameters.\<close>

record configurator_calls =
  configurator_editServer :: "string \<Rightarrow> jobject \<Rightarrow> store \<Rightarrow> bool \<times> store"
  configurator_getConnectedServerNames :: "store \<Rightarrow> string list"

text \<open>A \<open>QVariant\<close> of a delivered probe result and its \<open>toInt\<close>.\<close>

datatype qvariant = VInvalid | VBool bool | VInt int | VString string

fun variant_toInt :: "qvariant \<Rightarrow> int" where
  "variant_toInt VInvalid = 0"
| "variant_toInt (VBool b) = (if b then 1 else 0)"
| "variant_toInt (VInt i) = i"
| "variant_toInt (VString s) = toInt s"

text \<open>What a slot of \<open>AppProxy\<close> does beyond changing the store and the latency table:
  the signals it emits, the calls to the engine and the operating system, and the log
  lines, in the order of the code.\<close>

datatype effect =
    AppConfigError string
  | AppConfigChanged
  | ServerConfigError string
  | ServersChanged
  | ServerChanged string jobject
  | ServersReady "jobject list"
  | ServerLatencyReady "(string \<times> qvariant) list"
  | SetAutoStart bool
  | Retranslate string
  | V2RayRestart
  | QInfo string
  | QWarning string
  | QWarningObfs jobject

record appproxy =
  configurator :: store
  serverLatency :: "string \<rightharpoonup> int"
  effects :: "effect list"

definition emit :: "effect \<Rightarrow> appproxy \<Rightarrow> appproxy" where
  "emit e app = app\<lparr>effects := effects app @ [e]\<rparr>"

section \<open>Application settings\<close>

text \<open>\<open>AppProxy::setAppConfig\<close>. With errors it emits them joined by line feeds and
  returns; otherwise it reads \<open>autoStart\<close> and \<open>language\<close> through references, turns the
  two ports into numbers, saves the settings and restarts the engine.\<close>

definition setAppConfig :: "qt \<Rightarrow> string \<Rightarrow> appproxy \<Rightarrow> appproxy" where
  "setAppConfig q configString app =
     (let appConfig = fromJson q configString;
          appConfigErrors = getAppConfigErrors appConfig
      in if length appConfigErrors > 0
         then emit (AppConfigError (join [CHR 0x0A] appConfigErrors)) app
         else
           (let appConfig1 = jref ''autoStart'' appConfig;
                app1 = emit (SetAutoStart (toBool (jvalue appConfig1 ''autoStart''))) app;
                appConfig2 = jref ''language'' appConfig1;
                app2 = emit (Retranslate (toString (jvalue appConfig2 ''language''))) app1;
                appConfig3 = jassign ''serverPort''
                  (JNum (toInt (toString (jvalue (jref ''serverPort'' appConfig2) ''serverPort''))))
                  appConfig2;
                appConfig4 = jassign ''pacPort''
                  (JNum (toInt (toString (jvalue (jref ''pacPort'' appConfig3) ''pacPort''))))
                  appConfig3;
                app3 = app2\<lparr>configurator := configurator_setAppConfig appConfig4 (configurator app2)\<rparr>;
                app4 = emit (QInfo ''Application config updated. Restarting V2Ray ...'') app3;
                app5 = emit V2RayRestart app4
            in emit AppConfigChanged app5))"

section \<open>Probe coordinator\<close>

text \<open>\<open>AppProxy::returnServerLatency\<close>: the loop stores the \<open>toInt\<close> of every delivered
  entry under its key. The delivered \<open>QMap\<close> is the list of its entries.\<close>

fun storeLatency :: "(string \<times> qvariant) list \<Rightarrow> (string \<rightharpoonup> int) \<Rightarrow> (string \<rightharpoonup> int)" where
  "storeLatency [] table = table"
| "storeLatency (l # latency) table =
     storeLatency latency (table(fst l \<mapsto> variant_toInt (snd l)))"

definition returnServerLatency :: "(string \<times> qvariant) list \<Rightarrow> appproxy \<Rightarrow> appproxy" where
  "returnServerLatency latency app =
     emit (ServerLatencyReady latency)
       (app\<lparr>serverLatency := storeLatency latency (serverLatency app)\<rparr>)"

text \<open>\<open>AppProxy::getServers\<close>: every listed profile gets its \<open>connected\<close> flag, and its
  \<open>latency\<close> when the table has an entry for its name.\<close>

definition listServer :: "string list \<Rightarrow> (string \<rightharpoonup> int) \<Rightarrow> jobject \<Rightarrow> jobject" where
  "listServer connectedServerNames table server0 =
     (let serverName = (if contains server0 ''serverName''
                        then toString (jvalue server0 ''serverName'') else []);
          server = jassign ''connected'' (JBool (serverName \<in> set connectedServerNames)) server0
      in case table serverName of
           Some latency \<Rightarrow> jassign ''latency'' (JNum latency) server
         | None \<Rightarrow> server)"

definition getServers :: "configurator_calls \<Rightarrow> appproxy \<Rightarrow> appproxy" where
  "getServers c app =
     (let servers = storedServers (configurator app);
          connectedServerNames = configurator_getConnectedServerNames c (configurator app)
      in emit (ServersReady (map (listServer connectedServerNames (serverLatency app)) servers)) app)"

section \<open>Subscription importer\<close>

text \<open>\<open>AppProxy::addSubscriptionServers\<close>. The end of the loop body, after a line was
  decoded: the \<open>autoConnect\<close> flag of a removed profile of the same name is recovered,
  the profile is saved and a line is logged.\<close>

definition recoverAndAdd ::
  "(string \<rightharpoonup> jobject) \<Rightarrow> string \<Rightarrow> jobject \<Rightarrow> appproxy \<Rightarrow> appproxy" where
  "recoverAndAdd removedServers server serverConfig0 app =
     (let serverName = (if contains serverConfig0 ''serverName''
                        then toString (jvalue serverConfig0 ''serverName'') else []);
          serverConfig = jassign ''autoConnect''
            (JBool (case removedServers serverName of
                      Some removed \<Rightarrow> toBool (jvalue removed ''autoConnect'')
                    | None \<Rightarrow> False))
            serverConfig0
      in emit (QInfo (''Add a new server[Name='' @ serverName @ ''] from URI: '' @ server))
           (app\<lparr>configurator := configurator_addServer serverConfig (configurator app)\<rparr>))"

text \<open>The loop body: a line with obfuscation options or of another scheme is logged
  and left out (\<open>continue\<close>).\<close>

definition addSubscriptionServer ::
  "qt \<Rightarrow> string \<Rightarrow> (string \<rightharpoonup> jobject) \<Rightarrow> string \<Rightarrow> rng \<times> appproxy \<Rightarrow> rng \<times> appproxy" where
  "addSubscriptionServer q subsriptionUrl removedServers server ra =
     (let r = fst ra; app = snd ra
      in if startsWith server ''ss://'' then
           (let serverConfig = getShadowsocksServerFromUrl q server subsriptionUrl
            in if contains serverConfig ''obfs''
               then (r, emit (QWarningObfs serverConfig) app)
               else (r, recoverAndAdd removedServers server
                          (getPrettyShadowsocksConfig serverConfig) app))
         else if startsWith server ''vmess://'' then
           (let (serverConfig, r') =
                  getPrettyV2RayConfig r (getV2RayServerFromUrl q server subsriptionUrl)
            in (r', recoverAndAdd removedServers server serverConfig app))
         else (r, emit (QWarning (''Ignore subscription server: '' @ server)) app))"

fun addSubscriptionLines ::
  "qt \<Rightarrow> string \<Rightarrow> (string \<rightharpoonup> jobject) \<Rightarrow> string list \<Rightarrow> rng \<times> appproxy \<Rightarrow> rng \<times> appproxy" where
  "addSubscriptionLines q subsriptionUrl removedServers [] ra = ra"
| "addSubscriptionLines q subsriptionUrl removedServers (server # servers) ra =
     addSubscriptionLines q subsriptionUrl removedServers servers
       (addSubscriptionServer q subsriptionUrl removedServers server ra)"

definition addSubscriptionServers ::
  "qt \<Rightarrow> rng \<Rightarrow> string \<Rightarrow> string \<Rightarrow> appproxy \<Rightarrow> rng \<times> appproxy" where
  "addSubscriptionServers q r subsriptionServers subsriptionUrl app =
     (if length subsriptionServers = 0
      then (r, emit (ServerConfigError ''Failed to get subscription servers from URL.'') app)
      else
        (let (removedServers, st) =
               configurator_removeSubscriptionServers subsriptionUrl (configurator app);
             servers = split CHR 0x0A subsriptionServers;
             (r', app') = addSubscriptionLines q subsriptionUrl removedServers servers
                            (r, app\<lparr>configurator := st\<rparr>)
         in (r', emit ServersChanged app')))"

section \<open>Editing a profile\<close>

text \<open>\<open>AppProxy::editServer\<close>.\<close>

definition editServer ::
  "qt \<Rightarrow> configurator_calls \<Rightarrow> rng \<Rightarrow> string \<Rightarrow> string \<Rightarrow> string \<Rightarrow> appproxy
     \<Rightarrow> rng \<times> appproxy" where
  "editServer q c r serverName protocol configString app =
     (let serverConfig0 = fromJson q configString;
          serverConfigErrors = getServerConfigErrors q serverConfig0 protocol
      in if length serverConfigErrors > 0
         then (r, emit (ServerConfigError (join [CHR 0x0A] serverConfigErrors)) app)
         else
           (let (serverConfig1, r') = getPrettyServerConfig r serverConfig0 protocol;
                (edited, st) = configurator_editServer c serverName serverConfig1 (configurator app);
                app1 = app\<lparr>configurator := st\<rparr>
            in if edited then
                 (let serverConfig2 = jref ''serverName'' serverConfig1;
                      newServerName = toString (jvalue serverConfig2 ''serverName'');
                      connectedServerNames = configurator_getConnectedServerNames c st;
                      serverConfig3 = jassign ''connected''
                        (JBool (newServerName \<in> set connectedServerNames)) serverConfig2;
                      (serverConfig4, table) =
                        (case serverLatency app1 serverName of
                           Some latency \<Rightarrow>
                             (jassign ''latency'' (JNum latency) serverConfig3,
                              if newServerName \<noteq> serverName
                              then ((serverLatency app1)(newServerName \<mapsto> latency))
                                     (serverName := None)
                              else serverLatency app1)
                         | None \<Rightarrow> (serverConfig3, serverLatency app1));
                      app2 = emit (ServerChanged serverName serverConfig4)
                               (app1\<lparr>serverLatency := table\<rparr>)
                  in (r', emit V2RayRestart app2))
               else (r', app1)))"

section \<open>The import loop, line by line\<close>

text \<open>Names for what one pass of the loop of \<open>addSubscriptionServers\<close> does with a line,
  read off its branches: whether the line is left out (\<open>continue\<close>), the one log line it
  writes, and the \<open>autoConnect\<close> flag that a built profile gets from the removed profile
  of the same name.\<close>

definition lineSkipped :: "qt \<Rightarrow> string \<Rightarrow> string \<Rightarrow> bool" where
  "lineSkipped q subsriptionUrl server =
     (if startsWith server ''ss://''
      then contains (getShadowsocksServerFromUrl q server subsriptionUrl) ''obfs''
      else \<not> startsWith server ''vmess://'')"

definition lineEffect :: "qt \<Rightarrow> string \<Rightarrow> string \<Rightarrow> effect" where
  "lineEffect q subsriptionUrl server =
     (if startsWith server ''ss://'' then
        (let serverConfig = getShadowsocksServerFromUrl q server subsriptionUrl
         in if contains serverConfig ''obfs'' then QWarningObfs serverConfig
            else QInfo (''Add a new server[Name='' @ toString (jvalue serverConfig ''serverName'')
                        @ ''] from URI: '' @ server))
      else if startsWith server ''vmess://'' then
        QInfo (''Add a new server[Name=''
               @ toString (jvalue (getV2RayServerFromUrl q server subsriptionUrl) ''serverName'')
               @ ''] from URI: '' @ server)
      else QWarning (''Ignore subscription server: '' @ server))"

definition recoveredFlag :: "(string \<rightharpoonup> jobject) \<Rightarrow> string \<Rightarrow> bool" where
  "recoveredFlag removedServers serverName =
     (case removedServers serverName of
        Some removed \<Rightarrow> toBool (jvalue removed ''autoConnect'')
      | None \<Rightarrow> False)"

definition recoverAutoConnect :: "(string \<rightharpoonup> jobject) \<Rightarrow> jobject \<Rightarrow> jobject" where
  "recoverAutoConnect removedServers serverConfig =
     jassign ''autoConnect'' (JBool (recoveredFlag removedServers (profileName serverConfig)))
       serverConfig"

text \<open>What the loop builds from a line that it does not leave out, before the
  \<open>autoConnect\<close> flag is recovered: the Shadowsocks configuration of the decoded record,
  or the VMESS configuration of the decoded record at some state of the generator.\<close>

definition builtFromLine :: "qt \<Rightarrow> string \<Rightarrow> string \<Rightarrow> jobject \<Rightarrow> bool" where
  "builtFromLine q subsriptionUrl server serverConfig =
     (if startsWith server ''ss://''
      then serverConfig =
             getPrettyShadowsocksConfig (getShadowsocksServerFromUrl q server subsriptionUrl)
      else \<exists>r. serverConfig =
             fst (getPrettyV2RayConfig r (getV2RayServerFromUrl q server subsriptionUrl)))"

text \<open>The one case in which \<open>getV2RayStreamSettingsConfig\<close> draws random numbers: the tcp
  transport with the http header.\<close>

definition usesHttpHeader :: "jobject \<Rightarrow> bool" where
  "usesHttpHeader serverConfig =
     (toString (jvalue serverConfig ''network'') = ''tcp''
      \<and> toLower (toString (jvalue serverConfig ''tcpHeaderType'')) = ''http'')"

section \<open>Profiles that differ in their User-Agent strings only\<close>

text \<open>Two objects are the same except at a key when they have the same keys in the same
  order, equal values at every other key, and values at that key that a given relation
  accepts. Two built profiles are the same but for their User-Agent strings when they
  differ at most in \<open>streamSettings.tcpSettings.request.headers.User-Agent\<close>, and there
  by the strings of two lists of one length.\<close>

definition sameExcept :: "string \<Rightarrow> (json \<Rightarrow> json \<Rightarrow> bool) \<Rightarrow> jobject \<Rightarrow> jobject \<Rightarrow> bool" where
  "sameExcept key R a b =
     list_all2 (\<lambda>kv kw. fst kv = fst kw
                  \<and> (if fst kv = key then R (snd kv) (snd kw) else snd kv = snd kw)) a b"

definition insideObject :: "(jobject \<Rightarrow> jobject \<Rightarrow> bool) \<Rightarrow> json \<Rightarrow> json \<Rightarrow> bool" where
  "insideObject R u v =
     (case u of
        JObj a \<Rightarrow> (case v of JObj b \<Rightarrow> R a b | _ \<Rightarrow> False)
      | _ \<Rightarrow> u = v)"

definition sameLength :: "json \<Rightarrow> json \<Rightarrow> bool" where
  "sameLength u v =
     (case u of
        JArr xs \<Rightarrow> (case v of JArr ys \<Rightarrow> length xs = length ys | _ \<Rightarrow> False)
      | _ \<Rightarrow> u = v)"

definition sameButUserAgents :: "jobject \<Rightarrow> jobject \<Rightarrow> bool" where
  "sameButUserAgents =
     sameExcept ''streamSettings'' (insideObject
       (sameExcept ''tcpSettings'' (insideObject
         (sameExcept ''request'' (insideObject
           (sameExcept ''headers'' (insideObject
             (sameExcept ''User-Agent'' sameLength))))))))"

section \<open>Example inputs\<close>

text \<open>Two VMESS share links and two Shadowsocks share links, with the payloads that
  their base64 parts stand for. The first VMESS payload names a transport that the decoder
  does not know and has no \<open>aid\<close>; the second asks for tcp with the http header. The
  second Shadowsocks link carries obfuscation options.\<close>

definition tokyoBase64 :: string where
  \<open>tokyoBase64 = ''eyJwcyI6InRva3lvIiwiYWRkIjoianAuZXhhbXBsZS5jb20iLCJwb3J0Ijo0NDMsIm5ldCI6ImdycGMifQ==''\<close>

definition tokyoJson :: string where
  \<open>tokyoJson = ''{"ps":"tokyo","add":"jp.example.com","port":443,"net":"grpc"}''\<close>

definition osakaBase64 :: string where
  \<open>osakaBase64 = ''eyJwcyI6Im9zYWthIiwiYWRkIjoiMS4yLjMuNCIsInBvcnQiOjg0NDMsImFpZCI6IjIiLCJuZXQiOiJ0Y3AiLCJ0eXBlIjoiaHR0cCJ9''\<close>

definition osakaJson :: string where
  \<open>osakaJson = ''{"ps":"osaka","add":"1.2.3.4","port":8443,"aid":"2","net":"tcp","type":"http"}''\<close>

definition tokyoLink :: string where
  "tokyoLink = ''vmess://'' @ tokyoBase64"

definition osakaLink :: string where
  "osakaLink = ''vmess://'' @ osakaBase64"

definition homeLink :: string where
  "homeLink = ''ss://YWVzLTI1Ni1nY206c2VjcmV0@5.6.7.8:8388/#home''"

definition workLink :: string where
  "workLink = ''ss://YWVzLTI1Ni1nY206c2VjcmV0@5.6.7.8:8388/?plugin=obfs-local%3Bobfs%3Dhttp#work''"

text \<open>Profile records and application settings as the forms of the user interface send
  them (numbers as strings), and the JSON texts of four of them.\<close>

definition vmessTcpProfile :: "string \<Rightarrow> string \<Rightarrow> string \<Rightarrow> jobject" where
  "vmessTcpProfile name port mux =
     [(''serverName'', JStr name),
      (''serverAddr'', JStr ''1.2.3.4''),
      (''serverPort'', JStr port),
      (''id'', JStr ''b831381d-6324-4d53-ad4f-8cda48b30811''),
      (''alterId'', JStr ''0''),
      (''security'', JStr ''auto''),
      (''mux'', JStr mux),
      (''network'', JStr ''tcp''),
      (''networkSecurity'', JStr ''none''),
      (''tcpHeaderType'', JStr ''none'')]"

definition vmessKcpProfile :: jobject where
  "vmessKcpProfile =
     [(''serverName'', JStr ''hk-02''),
      (''serverAddr'', JStr ''kcp.example.com''),
      (''serverPort'', JStr ''443''),
      (''id'', JStr ''b831381d-6324-4d53-ad4f-8cda48b30811''),
      (''alterId'', JStr ''0''),
      (''security'', JStr ''auto''),
      (''mux'', JStr ''8''),
      (''network'', JStr ''kcp''),
      (''networkSecurity'', JStr ''none''),
      (''kcpMtu'', JStr ''1350''),
      (''kcpTti'', JStr ''50''),
      (''kcpUpLink'', JStr ''5''),
      (''kcpDownLink'', JStr ''20''),
      (''kcpReadBuffer'', JStr ''2''),
      (''kcpWriteBuffer'', JStr ''2''),
      (''packetHeader'', JStr ''none'')]"

definition shadowsocksProfile :: "string \<Rightarrow> jobject" where
  "shadowsocksProfile port =
     [(''serverName'', JStr ''ss-01''),
      (''serverAddr'', JStr ''ss.example.com''),
      (''serverPort'', JStr port),
      (''encryption'', JStr ''AES-256-GCM''),
      (''password'', JStr ''secret'')]"

definition appSettings :: "string \<Rightarrow> string \<Rightarrow> jobject" where
  "appSettings serverPort pacPort =
     [(''language'', JStr ''en-US''),
      (''serverProtocol'', JStr ''SOCKS''),
      (''serverIp'', JStr ''127.0.0.1''),
      (''serverPort'', JStr serverPort),
      (''pacPort'', JStr pacPort),
      (''dns'', JStr ''8.8.8.8, 1.1.1.1'')]"

definition settingsJson :: string where
  \<open>settingsJson = ''{"language":"en-US","serverProtocol":"SOCKS","serverIp":"127.0.0.1","serverPort":"1080","pacPort":"1085","dns":"8.8.8.8, 1.1.1.1"}''\<close>

definition clashingSettingsJson :: string where
  \<open>clashingSettingsJson = ''{"language":"en-US","serverProtocol":"SOCKS","serverIp":"127.0.0.1","serverPort":"1080","pacPort":"1080","dns":"8.8.8.8, 1.1.1.1"}''\<close>

definition leadingZeroSettingsJson :: string where
  \<open>leadingZeroSettingsJson = ''{"language":"en-US","serverProtocol":"SOCKS","serverIp":"127.0.0.1","serverPort":"1080","pacPort":"01080","dns":"8.8.8.8, 1.1.1.1"}''\<close>

definition renamedProfileJson :: string where
  \<open>renamedProfileJson = ''{"serverName":"hk-01-premium","serverAddr":"1.2.3.4","serverPort":"443","id":"b831381d-6324-4d53-ad4f-8cda48b30811","alterId":"0","security":"auto","mux":"8","network":"tcp","networkSecurity":"none","tcpHeaderType":"none"}''\<close>

text \<open>A toolkit whose decoders know these texts.\<close>

definition exampleQt :: qt where
  "exampleQt =
     \<lparr> fromJson = (\<lambda>s.
         if s = tokyoJson then
           [(''add'', JStr ''jp.example.com''), (''net'', JStr ''grpc''), (''port'', JNum 443),
            (''ps'', JStr ''tokyo'')]
         else if s = osakaJson then
           [(''add'', JStr ''1.2.3.4''), (''aid'', JStr ''2''), (''net'', JStr ''tcp''),
            (''port'', JNum 8443), (''ps'', JStr ''osaka''), (''type'', JStr ''http'')]
         else if s = settingsJson then appSettings ''1080'' ''1085''
         else if s = clashingSettingsJson then appSettings ''1080'' ''1080''
         else if s = leadingZeroSettingsJson then appSettings ''1080'' ''01080''
         else if s = renamedProfileJson then vmessTcpProfile ''hk-01-premium'' ''443'' ''8''
         else []),
       fromBase64 = (\<lambda>s.
         if s = tokyoBase64 then tokyoJson
         else if s = osakaBase64 then osakaJson
         else if s = ''YWVzLTI1Ni1nY206c2VjcmV0'' then ''aes-256-gcm:secret''
         else []),
       fromPercentEncoding = (\<lambda>s.
         if s = ''obfs-local%3Bobfs%3Dhttp'' then ''obfs-local;obfs=http'' else s),
       queryItems = (\<lambda>s.
         if s = ''plugin=obfs-local%3Bobfs%3Dhttp''
         then [(''plugin'', ''obfs-local%3Bobfs%3Dhttp'')] else []),
       dirExists = (\<lambda>s. False) \<rparr>"

text \<open>A \<open>Configurator\<close> whose \<open>editServer\<close> replaces the profile of the given name, when
  there is one, and whose connected profiles are those with \<open>autoConnect\<close>; and a state
  of the application with two stored profiles and a cached latency for each.\<close>

definition exampleCalls :: configurator_calls where
  "exampleCalls =
     \<lparr> configurator_editServer = (\<lambda>serverName serverConfig st.
         if list_ex (\<lambda>server. profileName server = serverName) (storedServers st)
         then (True, st\<lparr>storedServers :=
                 map (\<lambda>server. if profileName server = serverName then serverConfig else server)
                   (storedServers st)\<rparr>)
         else (False, st)),
       configurator_getConnectedServerNames = (\<lambda>st.
         map profileName (filter (\<lambda>server. toBool (jvalue server ''autoConnect''))
           (storedServers st))) \<rparr>"

definition exampleApp :: appproxy where
  "exampleApp =
     \<lparr> configurator =
         \<lparr> storedAppConfig = [(''proxyMode'', JStr ''pac'')],
           storedServers =
             [fst (getPrettyV2RayConfig (\<lambda>i. 0) (vmessTcpProfile ''hk-01'' ''443'' ''8'')),
              getPrettyShadowsocksConfig (shadowsocksProfile ''8388'')] \<rparr>,
       serverLatency = [''hk-01'' \<mapsto> 120, ''ss-01'' \<mapsto> 80],
       effects = [] \<rparr>"

text \<open>A subscription URL and a generator whose draws differ from one to the next.\<close>

definition exampleUrl :: string where
  "exampleUrl = ''https://sub.example.com/a''"

definition exampleRand :: rng where
  "exampleRand = (\<lambda>i. int i * 7919 + 13)"

text \<open>A bundle of four lines: a VMESS link, a Shadowsocks link with obfuscation options,
  a link of another scheme and a plain Shadowsocks link. And the state in which the
  profile of the first link is stored already and the user has set its \<open>autoConnect\<close>
  flag.\<close>

definition exampleBundle :: string where
  "exampleBundle =
     tokyoLink @ [CHR 0x0A] @ workLink @ [CHR 0x0A] @ ''trojan://example'' @ [CHR 0x0A] @ homeLink"

definition exampleFlagged :: appproxy where
  "exampleFlagged =
     exampleApp\<lparr>configurator := (configurator exampleApp)\<lparr>storedServers :=
        storedServers (configurator exampleApp)
        @ [jassign ''autoConnect'' (JBool True)
             (fst (getPrettyV2RayConfig exampleRand
                (getV2RayServerFromUrl exampleQt tokyoLink exampleUrl)))]\<rparr>\<rparr>"

text \<open>A bundle that holds the same link twice, the state after its import, and that
  state after the user has set the \<open>autoConnect\<close> flag of the first of the two imported
  profiles (the third stored profile).\<close>

definition twinsBundle :: string where
  "twinsBundle = tokyoLink @ [CHR 0x0A] @ tokyoLink"

definition exampleTwins :: appproxy where
  "exampleTwins = snd (addSubscriptionServers exampleQt exampleRand twinsBundle exampleUrl exampleApp)"

definition exampleTwinsFlagged :: appproxy where
  "exampleTwinsFlagged =
     exampleTwins\<lparr>configurator := (configurator exampleTwins)\<lparr>storedServers :=
       (storedServers (configurator exampleTwins))
         [2 := jassign ''autoConnect'' (JBool True)
                 (storedServers (configurator exampleTwins) ! 2)]\<rparr>\<rparr>"

text \<open>The list of User-Agent strings of a built VMESS configuration with the http
  header.\<close>

definition userAgentsOf :: "jobject \<Rightarrow> json" where
  "userAgentsOf serverConfig =
     jvalue (toObject (jvalue (toObject (jvalue (toObject (jvalue (toObject
       (jvalue serverConfig ''streamSettings'')) ''tcpSettings'')) ''request'')) ''headers''))
       ''User-Agent''"

text \<open>A probe result for one stored profile and one unknown name.\<close>

definition exampleLatency :: "(string \<times> qvariant) list" where
  "exampleLatency = [(''hk-01'', VInt 95), (''tokyo'', VInt 230)]"

text \<open>The messages that the rule for the port of a profile,
  \<open>getNumericConfigError(serverConfig, "serverPort", tr("Server Port"), 0, 65535)\<close>, can
  return.\<close>

definition serverPortErrors :: "string set" where
  "serverPortErrors =
     {msgMissing ''Server Port'', msgInvalid ''Server Port'', msgBetween ''Server Port'' 0 65535}"

section \<open>Lemmas about JSON objects\<close>

lemma map_of_jupdate: "map_of (jupdate k v obj) = (map_of obj)(k \<mapsto> v)"
  by (induction obj) (auto simp: fun_eq_iff)

lemma map_of_jremove: "map_of (jremove k obj) = (map_of obj)(k := None)"
  by (induction obj) (auto simp: jremove_def fun_eq_iff)

lemma jvalue_jinsert: "jvalue (jinsert k v obj) k' = (if k' = k then v else jvalue obj k')"
  by (simp add: jvalue_def jinsert_def map_of_jupdate map_of_jremove)

lemma contains_jinsert:
  "contains (jinsert k v obj) k' = (if k' = k then v \<noteq> JUndefined else contains obj k')"
  by (simp add: contains_def jinsert_def map_of_jupdate map_of_jremove)

lemma jvalue_jref: "jvalue (jref k obj) k' = (if k' = k \<and> \<not> contains obj k then JNull else jvalue obj k')"
  by (auto simp: jref_def jvalue_def contains_def map_of_jupdate)

lemma contains_jref: "contains (jref k obj) k' = (k' = k \<or> contains obj k')"
  by (auto simp: jref_def contains_def map_of_jupdate)

lemma jvalue_jassign: "jvalue (jassign k v obj) k' = (if k' = k then v else jvalue obj k')"
  by (auto simp: jassign_def jvalue_jinsert jvalue_jref)

lemma contains_jassign:
  "contains (jassign k v obj) k' = (if k' = k then v \<noteq> JUndefined else contains obj k')"
  by (auto simp: jassign_def contains_jinsert contains_jref)

lemma jvalue_Nil: "jvalue [] k = JUndefined"
  by (simp add: jvalue_def)

lemma contains_Nil: "contains [] k = False"
  by (simp add: contains_def)

lemma object_Nil: "object [] = []"
  by (simp add: object_def)

lemma object_snoc: "object (kvs @ [kv]) = jinsert (fst kv) (snd kv) (object kvs)"
  by (simp add: object_def)

lemma jvalue_object:
  "jvalue (object kvs) k = (case map_of (rev kvs) k of None \<Rightarrow> JUndefined | Some v \<Rightarrow> v)"
proof (induction kvs rule: rev_induct)
  case Nil
  then show ?case by (simp add: object_Nil jvalue_Nil)
next
  case (snoc kv kvs)
  then show ?case by (cases kv) (simp add: object_snoc jvalue_jinsert)
qed

lemma contains_object:
  "contains (object kvs) k =
     (case map_of (rev kvs) k of None \<Rightarrow> False | Some v \<Rightarrow> v \<noteq> JUndefined)"
proof (induction kvs rule: rev_induct)
  case Nil
  then show ?case by (simp add: object_Nil contains_Nil)
next
  case (snoc kv kvs)
  then show ?case by (cases kv) (simp add: object_snoc contains_jinsert)
qed

lemma jvalue_not_contains: "\<not> contains obj k \<Longrightarrow> jvalue obj k = JUndefined"
  by (simp add: jvalue_def contains_def)

lemma toString_jvalue_jref: "toString (jvalue (jref k obj) k') = toString (jvalue obj k')"
  by (simp add: jvalue_jref jvalue_not_contains)

lemma toBool_jvalue_jref: "toBool (jvalue (jref k obj) k') = toBool (jvalue obj k')"
  by (simp add: jvalue_jref jvalue_not_contains)

section \<open>Lemmas about the validator\<close>

lemma msg_simps:
  "msgMissing n \<noteq> []" "msgInvalid n \<noteq> []" "msgAbove n l \<noteq> []" "msgBetween n l u \<noteq> []"
  "[] \<noteq> msgMissing n" "[] \<noteq> msgInvalid n" "[] \<noteq> msgAbove n l" "[] \<noteq> msgBetween n l u"
  by (simp_all add: msgMissing_def msgInvalid_def msgAbove_def msgBetween_def)

lemma toInt_ok_Nil: "toInt_ok [] = None"
  by (simp add: toInt_ok_def trimmed_def signed_digits_def)

lemma toString_nonempty_contains: "toString (jvalue cfg k) \<noteq> [] \<Longrightarrow> contains cfg k"
  by (auto simp: jvalue_def contains_def split: option.splits)

text \<open>With the upper bound \<open>-127\<close> and the lower bound 0 the check has a message for
  every record: a value below 0 takes the second branch and every other value the third,
  where it exceeds the upper bound.\<close>

lemma unbounded_above_always_error:
  "getNumericConfigError cfg key name 0 (- 127) \<noteq> []"
  by (auto simp: getNumericConfigError_def msg_simps split: option.splits)

lemma toInt_ok_Some_contains: "toInt_ok (toString (jvalue cfg k)) = Some v \<Longrightarrow> contains cfg k"
  by (rule toString_nonempty_contains) (auto simp: toInt_ok_Nil)

lemma getNumericConfigError_empty_iff:
  "getNumericConfigError cfg key name lowerBound upperBound = [] \<longleftrightarrow>
     (\<exists>v. toInt_ok (toString (jvalue cfg key)) = Some v \<and> lowerBound \<le> v \<and> v \<le> upperBound)"
  by (auto simp: getNumericConfigError_def msg_simps toInt_ok_Nil toInt_ok_Some_contains
      split: option.splits)

lemma getNumericConfigError_cases:
  "getNumericConfigError cfg key name lowerBound upperBound
     \<in> {[], msgMissing name, msgInvalid name, msgAbove name lowerBound,
         msgBetween name lowerBound upperBound}"
  by (auto simp: getNumericConfigError_def split: option.splits)

lemma getStringConfigError_cases:
  "getStringConfigError cfg key name cks \<in> {[], msgMissing name, msgInvalid name}"
  by (auto simp: getStringConfigError_def Let_def)

lemma checkpointsLoop_iff: "checkpointsLoop cks s b = (b \<or> list_ex (\<lambda>ck. ck s) cks)"
  by (induction cks arbitrary: b) simp_all

lemma getStringConfigError_empty_iff:
  "getStringConfigError cfg key name cks = [] \<longleftrightarrow>
     (toString (jvalue cfg key) \<noteq> [] \<and> (cks = [] \<or> list_ex (\<lambda>ck. ck (toString (jvalue cfg key))) cks))"
proof (cases "toString (jvalue cfg key) = []")
  case True
  then show ?thesis by (simp add: getStringConfigError_def msg_simps)
next
  case False
  then have "contains cfg key" by (rule toString_nonempty_contains)
  with False show ?thesis
    by (cases cks) (simp_all add: getStringConfigError_def Let_def msg_simps checkpointsLoop_iff)
qed

section \<open>Validation of the capacity and buffer fields of kcp\<close>

text \<open>
  C1. The claim: a kcp profile whose \<open>kcpUpLink\<close>, \<open>kcpDownLink\<close>, \<open>kcpReadBuffer\<close> or
  \<open>kcpWriteBuffer\<close> is present and parses to an integer above 0 gets no message for that
  field. The code: on the profile \<open>vmessKcpProfile\<close>, whose four fields are 5, 20, 2 and 2
  and whose other fields are valid, validation returns one message for each of the four
  fields, saying that the value should be between 0 and -127.
\<close>

theorem kcp_capacity_fields_rejected:
  "getV2RayServerConfigErrors exampleQt vmessKcpProfile =
     [''The value of '' @ [CHR 0x27] @ ''Uplink Capacity'' @ [CHR 0x27]
        @ '' should between 0 and -127.'',
      ''The value of '' @ [CHR 0x27] @ ''Downlink Capacity'' @ [CHR 0x27]
        @ '' should between 0 and -127.'',
      ''The value of '' @ [CHR 0x27] @ ''Read Buffer Size'' @ [CHR 0x27]
        @ '' should between 0 and -127.'',
      ''The value of '' @ [CHR 0x27] @ ''Write Buffer Size'' @ [CHR 0x27]
        @ '' should between 0 and -127.'']"
  by code_simp

section \<open>Validation of the port of a profile\<close>

lemma string_error_not_port:
  assumes "name \<in> {''Server Name'', ''Server Address'', ''ID'', ''Security'', ''Network'',
     ''Network Security'', ''Packet Header'', ''Host'', ''Path'', ''Socket File Path'',
     ''QUIC Security'', ''QUIC Key'', ''Password''}"
  shows "getStringConfigError cfg k name cks \<notin> serverPortErrors"
  using assms getStringConfigError_cases [of cfg k name cks]
  by (auto simp: serverPortErrors_def msgMissing_def msgInvalid_def msgBetween_def)

lemma numeric_error_not_port:
  assumes "name \<in> {''Alter ID'', ''MUX'', ''MTU'', ''TTI'', ''Uplink Capacity'',
     ''Downlink Capacity'', ''Read Buffer Size'', ''Write Buffer Size''}"
  shows "getNumericConfigError cfg k name l u \<notin> serverPortErrors"
  using assms getNumericConfigError_cases [of cfg k name l u]
  by (auto simp: serverPortErrors_def msgMissing_def msgInvalid_def msgBetween_def msgAbove_def)

lemma empty_not_port: "[] \<notin> serverPortErrors"
  by (simp add: serverPortErrors_def msg_simps)

lemma port_error_in:
  "getNumericConfigError cfg ''serverPort'' ''Server Port'' 0 65535 \<in> serverPortErrors
     \<longleftrightarrow> getNumericConfigError cfg ''serverPort'' ''Server Port'' 0 65535 \<noteq> []"
proof -
  have "getNumericConfigError cfg ''serverPort'' ''Server Port'' 0 65535
          \<in> insert [] serverPortErrors"
    by (simp add: getNumericConfigError_def serverPortErrors_def split: option.splits)
  with empty_not_port show ?thesis by auto
qed

lemma stream_errors_not_port:
  "set (getV2RayStreamSettingsErrors q cfg network) \<inter> serverPortErrors = {}"
proof -
  have "e \<notin> serverPortErrors" if "e \<in> set (getV2RayStreamSettingsErrors q cfg network)" for e
    using that
    by (auto simp: getV2RayStreamSettingsErrors_def string_error_not_port numeric_error_not_port
        split: if_splits)
  then show ?thesis by blast
qed

text \<open>
  C2 (as the code has it). For every profile record, the VMESS validator and the
  Shadowsocks validator report none of the messages of the port rule exactly when the
  \<open>serverPort\<close> field is a string that parses to an integer from 0 to 65535, both
  included: the lower bound that both validators pass to the rule is 0.
\<close>

theorem server_port_accepted_iff:
  "(set (getV2RayServerConfigErrors q cfg) \<inter> serverPortErrors = {}
      \<longleftrightarrow> (\<exists>v. toInt_ok (toString (jvalue cfg ''serverPort'')) = Some v \<and> 0 \<le> v \<and> v \<le> 65535))
   \<and> (set (getShadowsocksServerConfigErrors cfg) \<inter> serverPortErrors = {}
      \<longleftrightarrow> (\<exists>v. toInt_ok (toString (jvalue cfg ''serverPort'')) = Some v \<and> 0 \<le> v \<and> v \<le> 65535))"
proof -
  define P where
    "P \<longleftrightarrow> (\<exists>v. toInt_ok (toString (jvalue cfg ''serverPort'')) = Some v \<and> 0 \<le> v \<and> v \<le> 65535)"
  have port: "getNumericConfigError cfg ''serverPort'' ''Server Port'' 0 65535 \<in> serverPortErrors
      \<longleftrightarrow> \<not> P"
    unfolding port_error_in getNumericConfigError_empty_iff P_def by blast
  have diff: "(A - {[]}) \<inter> serverPortErrors = A \<inter> serverPortErrors" for A
    using empty_not_port by blast
  have "set (getV2RayServerConfigErrors q cfg) \<inter> serverPortErrors = {} \<longleftrightarrow> P"
    unfolding getV2RayServerConfigErrors_def set_removeAll diff
    using stream_errors_not_port [of q cfg "toString (jvalue cfg ''network'')"]
    by (simp add: Int_Un_distrib2 port string_error_not_port numeric_error_not_port)
  moreover have "set (getShadowsocksServerConfigErrors cfg) \<inter> serverPortErrors = {} \<longleftrightarrow> P"
    unfolding getShadowsocksServerConfigErrors_def set_removeAll diff
    by (simp add: port string_error_not_port numeric_error_not_port)
  ultimately show ?thesis unfolding P_def by blast
qed

theorem server_port_accepted_iff_witness:
  "set (getV2RayServerConfigErrors exampleQt (vmessTcpProfile ''hk-01'' ''65535'' ''8'')) \<inter> serverPortErrors = {}
   \<and> set (getShadowsocksServerConfigErrors (vmessTcpProfile ''hk-01'' ''65535'' ''8'')) \<inter> serverPortErrors = {}
   \<and> set (getShadowsocksServerConfigErrors (shadowsocksProfile ''65536'')) \<inter> serverPortErrors \<noteq> {}"
proof -
  have a: "toInt_ok (toString (jvalue (vmessTcpProfile ''hk-01'' ''65535'' ''8'') ''serverPort'')) = Some 65535"
    by code_simp
  have b: "toInt_ok (toString (jvalue (shadowsocksProfile ''65536'') ''serverPort'')) = Some 65536"
    by code_simp
  show ?thesis
    using server_port_accepted_iff [of exampleQt "vmessTcpProfile ''hk-01'' ''65535'' ''8''"]
      server_port_accepted_iff [of exampleQt "shadowsocksProfile ''65536''"] a b
    by simp
qed

text \<open>
  C2 (as the claim has it). The claim says that a port is accepted exactly when it is in
  1 to 65535 and that the port 0 gets a range message. The port \<open>0\<close> parses to 0, and
  both validators return no message at all for a profile that has it.
\<close>

theorem port_zero_accepted:
  "toInt_ok ''0'' = Some 0
   \<and> getV2RayServerConfigErrors exampleQt (vmessTcpProfile ''hk-01'' ''0'' ''8'') = []
   \<and> getShadowsocksServerConfigErrors (shadowsocksProfile ''0'') = []"
  by code_simp

section \<open>The mux block of a built VMESS configuration\<close>

lemma object_pair:
  "v1 \<noteq> JUndefined \<Longrightarrow> v2 \<noteq> JUndefined \<Longrightarrow> k1 \<noteq> k2 \<Longrightarrow>
   object [(k1, v1), (k2, v2)] = [(k1, v1), (k2, v2)]"
  by (simp add: object_def jinsert_def)

lemma mux_of_pretty:
  "jvalue (fst (getPrettyV2RayConfig r cfg)) ''mux'' =
     JObj [(''enabled'', JBool (toInt (toString (jvalue cfg ''mux'')) \<noteq> 1)),
           (''concurrency'', JNum (toInt (toString (jvalue cfg ''mux''))))]"
  by (simp add: getPrettyV2RayConfig_def Let_def split_beta jvalue_jinsert jvalue_object object_pair)

lemma removeAll_empty_Nil: "removeAll [] xs = [] \<longleftrightarrow> (\<forall>x\<in>set xs. x = [])"
  by (induction xs) auto

text \<open>
  C3. For every VMESS profile that the validator accepts, the \<open>mux\<close> field is an
  integer \<open>muxConcurrency\<close> from -1 to 1024, and the built configuration has the \<open>mux\<close>
  object \<open>{enabled: muxConcurrency \<noteq> 1, concurrency: muxConcurrency}\<close>: \<open>enabled\<close> is
  true for every value but 1, also for -1, and the value itself is kept.
\<close>

theorem validated_vmess_mux_block:
  assumes "getV2RayServerConfigErrors q serverConfig = []"
  shows "\<exists>muxConcurrency.
           toInt_ok (toString (jvalue serverConfig ''mux'')) = Some muxConcurrency
           \<and> - 1 \<le> muxConcurrency \<and> muxConcurrency \<le> 1024
           \<and> jvalue (fst (getPrettyV2RayConfig r serverConfig)) ''mux'' =
               JObj [(''enabled'', JBool (muxConcurrency \<noteq> 1)),
                     (''concurrency'', JNum muxConcurrency)]"
proof -
  from assms have "getNumericConfigError serverConfig ''mux'' ''MUX'' (- 1) 1024 = []"
    unfolding getV2RayServerConfigErrors_def removeAll_empty_Nil by simp
  then obtain v where v: "toInt_ok (toString (jvalue serverConfig ''mux'')) = Some v"
      "- 1 \<le> v" "v \<le> 1024"
    unfolding getNumericConfigError_empty_iff by blast
  then have "toInt (toString (jvalue serverConfig ''mux'')) = v"
    by (simp add: toInt_def)
  with v show ?thesis by (simp add: mux_of_pretty)
qed

theorem validated_vmess_mux_block_witness:
  "getV2RayServerConfigErrors exampleQt (vmessTcpProfile ''hk-01'' ''443'' ''-1'') = []
   \<and> jvalue (fst (getPrettyV2RayConfig (\<lambda>i. 0) (vmessTcpProfile ''hk-01'' ''443'' ''-1''))) ''mux'' =
       JObj [(''enabled'', JBool True), (''concurrency'', JNum (- 1))]"
proof -
  have valid: "getV2RayServerConfigErrors exampleQt (vmessTcpProfile ''hk-01'' ''443'' ''-1'') = []"
    by code_simp
  have parsed: "toInt_ok (toString (jvalue (vmessTcpProfile ''hk-01'' ''443'' ''-1'') ''mux'')) = Some (- 1)"
    by code_simp
  from validated_vmess_mux_block [OF valid, of "\<lambda>i. 0"] parsed valid
  show ?thesis by auto
qed

section \<open>Defaults of a decoded VMESS share link\<close>

text \<open>
  C4. For every \<open>vmess://\<close> link, with \<open>rawServerConfig\<close> the JSON payload of its base64
  part: when \<open>net\<close> is absent or is none of the transports of \<open>NETWORK_MAPPER\<close> the
  decoded network is tcp, when \<open>aid\<close> is absent the decoded \<open>alterId\<close> is 0, and in every
  case \<open>mux\<close> is -1 and \<open>security\<close> is \<open>auto\<close>.
\<close>

theorem vmess_link_defaults:
  fixes q :: qt and server subscriptionUrl :: string
  defines "rawServerConfig \<equiv> fromJson q (fromBase64 q (mid server 8 (- 1)))"
  defines "serverConfig \<equiv> getV2RayServerFromUrl q server subscriptionUrl"
  shows "(\<not> contains rawServerConfig ''net''
           \<or> toString (jvalue rawServerConfig ''net'') \<notin> {''tcp'', ''kcp'', ''ws'', ''h2'', ''quic''}
          \<longrightarrow> jvalue serverConfig ''network'' = JStr ''tcp'')
       \<and> (\<not> contains rawServerConfig ''aid'' \<longrightarrow> jvalue serverConfig ''alterId'' = JNum 0)
       \<and> jvalue serverConfig ''mux'' = JNum (- 1)
       \<and> jvalue serverConfig ''security'' = JStr ''auto''"
  unfolding rawServerConfig_def serverConfig_def
  by (auto simp: getV2RayServerFromUrl_def Let_def jvalue_object NETWORK_MAPPER_def)

theorem vmess_link_defaults_witness:
  "\<not> contains (fromJson exampleQt (fromBase64 exampleQt (mid tokyoLink 8 (- 1)))) ''aid''
   \<and> toString (jvalue (fromJson exampleQt (fromBase64 exampleQt (mid tokyoLink 8 (- 1)))) ''net'')
       = ''grpc''
   \<and> jvalue (getV2RayServerFromUrl exampleQt tokyoLink ''https://sub.example.com/a'') ''network''
       = JStr ''tcp''
   \<and> jvalue (getV2RayServerFromUrl exampleQt tokyoLink ''https://sub.example.com/a'') ''alterId''
       = JNum 0
   \<and> jvalue (getV2RayServerFromUrl exampleQt tokyoLink ''https://sub.example.com/a'') ''mux''
       = JNum (- 1)
   \<and> jvalue (getV2RayServerFromUrl exampleQt tokyoLink ''https://sub.example.com/a'') ''security''
       = JStr ''auto''"
proof -
  have raw: "fromJson exampleQt (fromBase64 exampleQt (mid tokyoLink 8 (- 1))) =
      [(''add'', JStr ''jp.example.com''), (''net'', JStr ''grpc''), (''port'', JNum 443),
       (''ps'', JStr ''tokyo'')]"
    by code_simp
  have noaid: "\<not> contains (fromJson exampleQt (fromBase64 exampleQt (mid tokyoLink 8 (- 1)))) ''aid''"
    unfolding raw by (simp add: contains_def)
  have net: "toString (jvalue (fromJson exampleQt (fromBase64 exampleQt (mid tokyoLink 8 (- 1)))) ''net'')
      = ''grpc''"
    unfolding raw by (simp add: jvalue_def)
  from vmess_link_defaults [of exampleQt tokyoLink "''https://sub.example.com/a''"] noaid net
  show ?thesis by simp
qed

section \<open>The cross-field rule of the application settings\<close>









section \<open>All-or-nothing update of the application settings\<close>

text \<open>
  C7. When \<open>getAppConfigErrors\<close> has a message for the submitted settings, \<open>setAppConfig\<close>
  leaves the stored settings and the latency table as they were and does one thing only:
  it emits \<open>appConfigError\<close> with the messages, one per line; no restart of the engine is
  requested. So the store changes only when there is no message; and then the saved
  record holds the two ports as numbers, the engine is restarted and \<open>appConfigChanged\<close>
  is emitted.
\<close>

theorem setAppConfig_all_or_nothing:
  fixes q :: qt and configString :: string and app :: appproxy
  defines "appConfigErrors \<equiv> getAppConfigErrors (fromJson q configString)"
  defines "app' \<equiv> setAppConfig q configString app"
  shows "(appConfigErrors \<noteq> [] \<longrightarrow>
            configurator app' = configurator app
            \<and> serverLatency app' = serverLatency app
            \<and> effects app' = effects app @ [AppConfigError (join [CHR 0x0A] appConfigErrors)])
       \<and> (configurator app' \<noteq> configurator app \<longrightarrow> appConfigErrors = [])
       \<and> (appConfigErrors = [] \<longrightarrow>
            (\<exists>saved. configurator app' = configurator_setAppConfig saved (configurator app)
               \<and> jvalue saved ''serverPort''
                   = JNum (toInt (toString (jvalue (fromJson q configString) ''serverPort'')))
               \<and> jvalue saved ''pacPort''
                   = JNum (toInt (toString (jvalue (fromJson q configString) ''pacPort''))))
            \<and> effects app' = effects app @
                 [SetAutoStart (toBool (jvalue (fromJson q configString) ''autoStart'')),
                  Retranslate (toString (jvalue (fromJson q configString) ''language'')),
                  QInfo ''Application config updated. Restarting V2Ray ...'',
                  V2RayRestart, AppConfigChanged])"
proof -
  have rejected: "appConfigErrors \<noteq> [] \<Longrightarrow>
      app' = app\<lparr>effects := effects app @ [AppConfigError (join [CHR 0x0A] appConfigErrors)]\<rparr>"
    unfolding appConfigErrors_def app'_def by (simp add: setAppConfig_def Let_def emit_def)
  have accepted: "\<exists>saved. configurator app' = configurator_setAppConfig saved (configurator app)
               \<and> jvalue saved ''serverPort''
                   = JNum (toInt (toString (jvalue (fromJson q configString) ''serverPort'')))
               \<and> jvalue saved ''pacPort''
                   = JNum (toInt (toString (jvalue (fromJson q configString) ''pacPort'')))"
    if "appConfigErrors = []"
  proof -
    let ?appConfig2 = "jref ''language'' (jref ''autoStart'' (fromJson q configString))"
    let ?appConfig3 = "jassign ''serverPort''
        (JNum (toInt (toString (jvalue (jref ''serverPort'' ?appConfig2) ''serverPort''))))
        ?appConfig2"
    let ?appConfig4 = "jassign ''pacPort''
        (JNum (toInt (toString (jvalue (jref ''pacPort'' ?appConfig3) ''pacPort''))))
        ?appConfig3"
    have "configurator app' = configurator_setAppConfig ?appConfig4 (configurator app)"
      using that unfolding appConfigErrors_def app'_def
      by (simp add: setAppConfig_def Let_def emit_def)
    moreover have "jvalue ?appConfig4 ''serverPort''
        = JNum (toInt (toString (jvalue (fromJson q configString) ''serverPort'')))"
      by (simp add: jvalue_jassign toString_jvalue_jref)
    moreover have "jvalue ?appConfig4 ''pacPort''
        = JNum (toInt (toString (jvalue (fromJson q configString) ''pacPort'')))"
      by (simp add: jvalue_jassign toString_jvalue_jref)
    ultimately show ?thesis by blast
  qed
  have signals: "effects app' = effects app @
                 [SetAutoStart (toBool (jvalue (fromJson q configString) ''autoStart'')),
                  Retranslate (toString (jvalue (fromJson q configString) ''language'')),
                  QInfo ''Application config updated. Restarting V2Ray ...'',
                  V2RayRestart, AppConfigChanged]"
    if "appConfigErrors = []"
    using that unfolding appConfigErrors_def app'_def
    by (simp add: setAppConfig_def Let_def emit_def toString_jvalue_jref toBool_jvalue_jref)
  from rejected have kept: "appConfigErrors \<noteq> [] \<Longrightarrow> configurator app' = configurator app"
    by simp
  show ?thesis
    using rejected accepted signals kept by (cases "appConfigErrors = []") simp_all
qed

theorem setAppConfig_all_or_nothing_witness:
  "getAppConfigErrors (fromJson exampleQt clashingSettingsJson) = [msgSamePort]
   \<and> configurator (setAppConfig exampleQt clashingSettingsJson exampleApp) = configurator exampleApp
   \<and> effects (setAppConfig exampleQt clashingSettingsJson exampleApp) = [AppConfigError msgSamePort]
   \<and> getAppConfigErrors (fromJson exampleQt settingsJson) = []
   \<and> configurator (setAppConfig exampleQt settingsJson exampleApp) \<noteq> configurator exampleApp
   \<and> effects (setAppConfig exampleQt settingsJson exampleApp) =
       [SetAutoStart False, Retranslate ''en-US'',
        QInfo ''Application config updated. Restarting V2Ray ...'', V2RayRestart,
        AppConfigChanged]"
proof -
  have bad: "getAppConfigErrors (fromJson exampleQt clashingSettingsJson) = [msgSamePort]"
    by code_simp
  have good: "getAppConfigErrors (fromJson exampleQt settingsJson) = []"
    by code_simp
  have changed: "storedAppConfig (configurator (setAppConfig exampleQt settingsJson exampleApp))
      \<noteq> storedAppConfig (configurator exampleApp)"
    by code_simp
  have autoStart: "toBool (jvalue (fromJson exampleQt settingsJson) ''autoStart'') = False"
    by code_simp
  have lang: "toString (jvalue (fromJson exampleQt settingsJson) ''language'') = ''en-US''"
    by code_simp
  have none: "effects exampleApp = []"
    by (simp add: exampleApp_def)
  have differs: "configurator (setAppConfig exampleQt settingsJson exampleApp)
      \<noteq> configurator exampleApp"
    using changed by auto
  from setAppConfig_all_or_nothing [of exampleQt clashingSettingsJson exampleApp] bad none
  have rejected: "configurator (setAppConfig exampleQt clashingSettingsJson exampleApp)
        = configurator exampleApp"
      "effects (setAppConfig exampleQt clashingSettingsJson exampleApp)
        = [AppConfigError msgSamePort]"
    by simp_all
  from setAppConfig_all_or_nothing [of exampleQt settingsJson exampleApp] good none autoStart lang
  have accepted: "effects (setAppConfig exampleQt settingsJson exampleApp) =
       [SetAutoStart False, Retranslate ''en-US'',
        QInfo ''Application config updated. Restarting V2Ray ...'', V2RayRestart,
        AppConfigChanged]"
    by simp
  from bad good differs rejected accepted show ?thesis by simp
qed

section \<open>Delivery of a probe result\<close>

lemma storeLatency_other:
  "k \<notin> fst ` set latency \<Longrightarrow> storeLatency latency table k = table k"
  by (induction latency arbitrary: table) auto

lemma storeLatency_delivered:
  "distinct (map fst latency) \<Longrightarrow> (k, v) \<in> set latency \<Longrightarrow>
   storeLatency latency table k = Some (variant_toInt v)"
  by (induction latency arbitrary: table) (auto simp: storeLatency_other)

lemma dom_storeLatency: "dom (storeLatency latency table) = dom table \<union> fst ` set latency"
  by (induction latency arbitrary: table) auto

text \<open>
  C8. After \<open>returnServerLatency\<close> the latency table is unchanged at every name that the
  delivered map does not hold; at every name that it holds (the keys of a \<open>QMap\<close> are
  distinct) the entry is the delivered value; the names of the table are the old ones and
  the delivered ones, so nothing is cleared; and the listing of \<open>getServers\<close> shows for a
  profile without a result what it showed before.
\<close>

theorem latency_updated_per_key:
  fixes latency :: "(string \<times> qvariant) list" and app :: appproxy
  defines "app' \<equiv> returnServerLatency latency app"
  shows "(\<forall>name. name \<notin> fst ` set latency \<longrightarrow> serverLatency app' name = serverLatency app name)
       \<and> (distinct (map fst latency) \<longrightarrow>
            (\<forall>(name, v) \<in> set latency. serverLatency app' name = Some (variant_toInt v)))
       \<and> dom (serverLatency app') = dom (serverLatency app) \<union> fst ` set latency
       \<and> (\<forall>server names. profileName server \<notin> fst ` set latency \<longrightarrow>
            listServer names (serverLatency app') server = listServer names (serverLatency app) server)"
  unfolding app'_def
  by (auto simp: returnServerLatency_def emit_def storeLatency_other storeLatency_delivered
      dom_storeLatency listServer_def profileName_def Let_def jvalue_not_contains)

theorem latency_updated_per_key_witness:
  "distinct (map fst exampleLatency)
   \<and> ''ss-01'' \<notin> fst ` set exampleLatency
   \<and> serverLatency exampleApp ''ss-01'' = Some 80
   \<and> serverLatency (returnServerLatency exampleLatency exampleApp) ''ss-01'' = Some 80
   \<and> serverLatency (returnServerLatency exampleLatency exampleApp) ''hk-01'' = Some 95
   \<and> serverLatency (returnServerLatency exampleLatency exampleApp) ''tokyo'' = Some 230"
proof -
  have d: "distinct (map fst exampleLatency)"
    by (simp add: exampleLatency_def)
  have a: "''ss-01'' \<notin> fst ` set exampleLatency"
    by (simp add: exampleLatency_def)
  have b: "serverLatency exampleApp ''ss-01'' = Some 80"
    by (simp add: exampleApp_def)
  have m: "(''hk-01'', VInt 95) \<in> set exampleLatency" "(''tokyo'', VInt 230) \<in> set exampleLatency"
    by (simp_all add: exampleLatency_def)
  note inst = latency_updated_per_key [of exampleLatency exampleApp]
  from inst have other: "\<And>name. name \<notin> fst ` set exampleLatency \<Longrightarrow>
      serverLatency (returnServerLatency exampleLatency exampleApp) name
        = serverLatency exampleApp name"
    by blast
  from inst d have delivered: "\<And>name v. (name, v) \<in> set exampleLatency \<Longrightarrow>
      serverLatency (returnServerLatency exampleLatency exampleApp) name = Some (variant_toInt v)"
    by blast
  from other [OF a] b delivered [OF m(1)] delivered [OF m(2)] d a
  show ?thesis by simp
qed

section \<open>The latency table when a profile is edited\<close>

lemma serverName_of_pretty_vmess:
  "jvalue (fst (getPrettyV2RayConfig r cfg)) ''serverName'' = JStr (toString (jvalue cfg ''serverName''))"
  by (simp add: getPrettyV2RayConfig_def Let_def split_beta jvalue_jinsert jvalue_object)

lemma serverName_of_pretty_ss:
  "jvalue (getPrettyShadowsocksConfig cfg) ''serverName'' = JStr (toString (jvalue cfg ''serverName''))"
  by (simp add: getPrettyShadowsocksConfig_def jvalue_object)

lemma no_errors_protocol:
  "getServerConfigErrors q cfg protocol = [] \<Longrightarrow> protocol = ''vmess'' \<or> protocol = ''shadowsocks''"
  by (auto simp: getServerConfigErrors_def split: if_splits)

lemma serverName_of_pretty:
  "protocol = ''vmess'' \<or> protocol = ''shadowsocks'' \<Longrightarrow>
   toString (jvalue (jref ''serverName'' (fst (getPrettyServerConfig r cfg protocol))) ''serverName'')
     = toString (jvalue cfg ''serverName'')"
  by (auto simp: getPrettyServerConfig_def toString_jvalue_jref serverName_of_pretty_vmess
      serverName_of_pretty_ss)

text \<open>
  C10. When the submitted record passes validation and the \<open>Configurator\<close> reports that
  it edited the profile \<open>serverName\<close>: if the table has a latency for \<open>serverName\<close> and
  the record has another name, the table afterwards has that latency at the new name and
  nothing at \<open>serverName\<close>; if the name is the same or the table has nothing for
  \<open>serverName\<close>, the table is unchanged; and in every case the entries of all other names
  are unchanged.
\<close>

theorem editServer_latency_follows_rename:
  fixes q :: qt and c :: configurator_calls and r :: rng and app :: appproxy
    and serverName protocol configString :: string
  defines "serverConfig \<equiv> fromJson q configString"
  defines "newServerName \<equiv> toString (jvalue serverConfig ''serverName'')"
  defines "app' \<equiv> snd (editServer q c r serverName protocol configString app)"
  assumes valid: "getServerConfigErrors q serverConfig protocol = []"
    and edited: "fst (configurator_editServer c serverName
                   (fst (getPrettyServerConfig r serverConfig protocol)) (configurator app))"
  shows "(\<forall>latency. serverLatency app serverName = Some latency \<and> newServerName \<noteq> serverName \<longrightarrow>
            serverLatency app' newServerName = Some latency \<and> serverLatency app' serverName = None)
       \<and> (newServerName = serverName \<or> serverLatency app serverName = None \<longrightarrow>
            serverLatency app' = serverLatency app)
       \<and> (\<forall>other. other \<noteq> serverName \<and> other \<noteq> newServerName \<longrightarrow>
            serverLatency app' other = serverLatency app other)"
proof -
  from valid have proto: "protocol = ''vmess'' \<or> protocol = ''shadowsocks''"
    by (rule no_errors_protocol)
  obtain serverConfig1 r' where pretty:
    "getPrettyServerConfig r serverConfig protocol = (serverConfig1, r')"
    by (cases "getPrettyServerConfig r serverConfig protocol")
  obtain st where call:
    "configurator_editServer c serverName serverConfig1 (configurator app) = (True, st)"
    using edited pretty
    by (cases "configurator_editServer c serverName serverConfig1 (configurator app)") simp
  have name: "toString (jvalue (jref ''serverName'' serverConfig1) ''serverName'') = newServerName"
    using serverName_of_pretty [OF proto, of r serverConfig] pretty
    by (simp add: newServerName_def)
  have table: "serverLatency app' =
      (case serverLatency app serverName of
         Some latency \<Rightarrow>
           if newServerName \<noteq> serverName
           then ((serverLatency app)(newServerName \<mapsto> latency))(serverName := None)
           else serverLatency app
       | None \<Rightarrow> serverLatency app)"
    using valid
    unfolding app'_def editServer_def serverConfig_def [symmetric]
    by (simp add: Let_def pretty call name emit_def split: option.splits)
  show ?thesis
    unfolding table by (auto split: option.splits)
qed


theorem editServer_latency_follows_rename_witness:
  "getServerConfigErrors exampleQt (fromJson exampleQt renamedProfileJson) ''vmess'' = []
   \<and> fst (configurator_editServer exampleCalls ''hk-01''
         (fst (getPrettyServerConfig (\<lambda>i. 0) (fromJson exampleQt renamedProfileJson) ''vmess''))
         (configurator exampleApp))
   \<and> serverLatency exampleApp ''hk-01'' = Some 120
   \<and> serverLatency (snd (editServer exampleQt exampleCalls (\<lambda>i. 0) ''hk-01'' ''vmess''
         renamedProfileJson exampleApp)) ''hk-01-premium'' = Some 120
   \<and> serverLatency (snd (editServer exampleQt exampleCalls (\<lambda>i. 0) ''hk-01'' ''vmess''
         renamedProfileJson exampleApp)) ''hk-01'' = None
   \<and> serverLatency (snd (editServer exampleQt exampleCalls (\<lambda>i. 0) ''hk-01'' ''vmess''
         renamedProfileJson exampleApp)) ''ss-01'' = Some 80"
proof -
  have valid: "getServerConfigErrors exampleQt (fromJson exampleQt renamedProfileJson) ''vmess'' = []"
    by code_simp
  have edited: "fst (configurator_editServer exampleCalls ''hk-01''
         (fst (getPrettyServerConfig (\<lambda>i. 0) (fromJson exampleQt renamedProfileJson) ''vmess''))
         (configurator exampleApp))"
    by code_simp
  have name: "toString (jvalue (fromJson exampleQt renamedProfileJson) ''serverName'') = ''hk-01-premium''"
    by code_simp
  have table: "serverLatency exampleApp ''hk-01'' = Some 120"
    "serverLatency exampleApp ''ss-01'' = Some 80"
    by (simp_all add: exampleApp_def)
  from editServer_latency_follows_rename [OF valid edited] name table valid edited
  show ?thesis by simp
qed

section \<open>The import of a subscription bundle\<close>

lemma profileName_if_contains:
  "(if contains cfg ''serverName'' then toString (jvalue cfg ''serverName'') else []) = profileName cfg"
  by (simp add: profileName_def jvalue_not_contains)

lemma recoverAndAdd_eq:
  "recoverAndAdd removedServers server serverConfig app =
     app\<lparr>configurator := (configurator app)\<lparr>storedServers :=
            storedServers (configurator app) @ [recoverAutoConnect removedServers serverConfig]\<rparr>,
         effects := effects app
            @ [QInfo (''Add a new server[Name='' @ profileName serverConfig @ ''] from URI: '' @ server)]\<rparr>"
  by (simp add: recoverAndAdd_def Let_def profileName_if_contains recoverAutoConnect_def
      recoveredFlag_def emit_def configurator_addServer_def)

lemma profileName_pretty_vmess:
  "profileName (fst (getPrettyV2RayConfig r cfg)) = toString (jvalue cfg ''serverName'')"
  by (simp add: profileName_def serverName_of_pretty_vmess)

lemma profileName_pretty_ss:
  "profileName (getPrettyShadowsocksConfig cfg) = toString (jvalue cfg ''serverName'')"
  by (simp add: profileName_def serverName_of_pretty_ss)

text \<open>One pass of the loop.\<close>

lemma addSubscriptionServer_skipped:
  "lineSkipped q url server \<Longrightarrow>
   addSubscriptionServer q url removedServers server (r, app) =
     (r, app\<lparr>effects := effects app @ [lineEffect q url server]\<rparr>)"
  by (auto simp: addSubscriptionServer_def lineSkipped_def lineEffect_def Let_def emit_def
      split: if_splits)

lemma addSubscriptionServer_ss:
  "\<not> lineSkipped q url server \<Longrightarrow> startsWith server ''ss://'' \<Longrightarrow>
   addSubscriptionServer q url removedServers server (r, app) =
     (r, app\<lparr>configurator := (configurator app)\<lparr>storedServers :=
            storedServers (configurator app)
              @ [recoverAutoConnect removedServers
                   (getPrettyShadowsocksConfig (getShadowsocksServerFromUrl q server url))]\<rparr>,
         effects := effects app @ [lineEffect q url server]\<rparr>)"
  by (simp add: addSubscriptionServer_def lineSkipped_def lineEffect_def Let_def recoverAndAdd_eq
      profileName_pretty_ss)

lemma addSubscriptionServer_vmess:
  "\<not> lineSkipped q url server \<Longrightarrow> \<not> startsWith server ''ss://'' \<Longrightarrow>
   addSubscriptionServer q url removedServers server (r, app) =
     (snd (getPrettyV2RayConfig r (getV2RayServerFromUrl q server url)),
      app\<lparr>configurator := (configurator app)\<lparr>storedServers :=
            storedServers (configurator app)
              @ [recoverAutoConnect removedServers
                   (fst (getPrettyV2RayConfig r (getV2RayServerFromUrl q server url)))]\<rparr>,
         effects := effects app @ [lineEffect q url server]\<rparr>)"
  by (simp add: addSubscriptionServer_def lineSkipped_def lineEffect_def Let_def recoverAndAdd_eq
      profileName_pretty_vmess split_beta)

text \<open>The whole loop: the profiles it builds do not depend on the removed profiles or on
  the state, only their \<open>autoConnect\<close> flags do.\<close>

lemma addSubscriptionLines_result:
  "\<exists>built r'.
     (\<forall>removedServers app.
        addSubscriptionLines q url removedServers servers (r, app) =
          (r', app\<lparr>configurator := (configurator app)\<lparr>storedServers :=
                    storedServers (configurator app) @ map (recoverAutoConnect removedServers) built\<rparr>,
                  effects := effects app @ map (lineEffect q url) servers\<rparr>))
     \<and> list_all2 (builtFromLine q url) (filter (\<lambda>server. \<not> lineSkipped q url server) servers) built"
proof (induction servers arbitrary: r)
  case Nil
  show ?case by (rule exI [of _ "[]"], rule exI [of _ r]) simp
next
  case (Cons server servers)
  define r1 where "r1 =
    (if lineSkipped q url server \<or> startsWith server ''ss://'' then r
     else snd (getPrettyV2RayConfig r (getV2RayServerFromUrl q server url)))"
  from Cons.IH [of r1] obtain built r' where
    loop: "\<And>removedServers app.
      addSubscriptionLines q url removedServers servers (r1, app) =
        (r', app\<lparr>configurator := (configurator app)\<lparr>storedServers :=
                  storedServers (configurator app) @ map (recoverAutoConnect removedServers) built\<rparr>,
                effects := effects app @ map (lineEffect q url) servers\<rparr>)"
    and built: "list_all2 (builtFromLine q url)
        (filter (\<lambda>server. \<not> lineSkipped q url server) servers) built"
    by blast
  show ?case
  proof (cases "lineSkipped q url server")
    case True
    then have "r1 = r" by (simp add: r1_def)
    with loop built True show ?thesis
      by (intro exI [of _ built] exI [of _ r']) (simp add: addSubscriptionServer_skipped)
  next
    case kept: False
    show ?thesis
    proof (cases "startsWith server ''ss://''")
      case True
      then have "r1 = r" by (simp add: r1_def)
      moreover have "builtFromLine q url server
          (getPrettyShadowsocksConfig (getShadowsocksServerFromUrl q server url))"
        using True unfolding builtFromLine_def by simp
      ultimately show ?thesis
        using loop built kept True
        by (intro exI [of _ "getPrettyShadowsocksConfig (getShadowsocksServerFromUrl q server url) # built"]
            exI [of _ r'])
          (simp add: addSubscriptionServer_ss)
    next
      case False
      with kept have "r1 = snd (getPrettyV2RayConfig r (getV2RayServerFromUrl q server url))"
        by (simp add: r1_def)
      moreover have "builtFromLine q url server
          (fst (getPrettyV2RayConfig r (getV2RayServerFromUrl q server url)))"
        using False unfolding builtFromLine_def by auto
      ultimately show ?thesis
        using loop built kept False
        by (intro exI [of _ "fst (getPrettyV2RayConfig r (getV2RayServerFromUrl q server url)) # built"]
            exI [of _ r'])
          (simp add: addSubscriptionServer_vmess)
    qed
  qed
qed

lemma addSubscriptionServers_result:
  assumes "subsriptionServers \<noteq> []"
  shows "\<exists>built r'.
     (\<forall>app. addSubscriptionServers q r subsriptionServers url app =
        (r', app\<lparr>configurator := (configurator app)\<lparr>storedServers :=
                  filter (\<lambda>server. subscriptionSource server \<noteq> url) (storedServers (configurator app))
                  @ map (recoverAutoConnect
                           (fst (configurator_removeSubscriptionServers url (configurator app)))) built\<rparr>,
                effects := effects app
                  @ map (lineEffect q url) (split CHR 0x0A subsriptionServers) @ [ServersChanged]\<rparr>))
     \<and> list_all2 (builtFromLine q url)
          (filter (\<lambda>server. \<not> lineSkipped q url server) (split CHR 0x0A subsriptionServers)) built"
proof -
  from addSubscriptionLines_result [of q url "split CHR 0x0A subsriptionServers" r]
  obtain built r' where
    loop: "\<And>removedServers app.
      addSubscriptionLines q url removedServers (split CHR 0x0A subsriptionServers) (r, app) =
        (r', app\<lparr>configurator := (configurator app)\<lparr>storedServers :=
                  storedServers (configurator app) @ map (recoverAutoConnect removedServers) built\<rparr>,
                effects := effects app @ map (lineEffect q url) (split CHR 0x0A subsriptionServers)\<rparr>)"
    and built: "list_all2 (builtFromLine q url)
        (filter (\<lambda>server. \<not> lineSkipped q url server) (split CHR 0x0A subsriptionServers)) built"
    by blast
  show ?thesis
    using assms built
    by (intro exI [of _ built] exI [of _ r'])
      (simp add: addSubscriptionServers_def Let_def split_beta loop emit_def
        configurator_removeSubscriptionServers_def)
qed

lemma recoverAutoConnect_simps:
  "subscriptionSource (recoverAutoConnect removedServers serverConfig) = subscriptionSource serverConfig"
  "profileName (recoverAutoConnect removedServers serverConfig) = profileName serverConfig"
  "jvalue (recoverAutoConnect removedServers serverConfig) ''autoConnect''
     = JBool (recoveredFlag removedServers (profileName serverConfig))"
  by (simp_all add: recoverAutoConnect_def subscriptionSource_def profileName_def jvalue_jassign)

text \<open>The example bundle, line by line.\<close>

lemma example_lines:
  "split CHR 0x0A exampleBundle = [tokyoLink, workLink, ''trojan://example'', homeLink]"
  by code_simp

lemma example_skipped:
  "\<not> lineSkipped exampleQt exampleUrl tokyoLink"
  "lineSkipped exampleQt exampleUrl workLink"
  "lineSkipped exampleQt exampleUrl ''trojan://example''"
  "\<not> lineSkipped exampleQt exampleUrl homeLink"
  by code_simp+

lemma example_effects:
  "lineEffect exampleQt exampleUrl tokyoLink
     = QInfo (''Add a new server[Name=tokyo] from URI: '' @ tokyoLink)"
  "lineEffect exampleQt exampleUrl workLink
     = QWarningObfs (getShadowsocksServerFromUrl exampleQt workLink exampleUrl)"
  "lineEffect exampleQt exampleUrl ''trojan://example''
     = QWarning ''Ignore subscription server: trojan://example''"
  "lineEffect exampleQt exampleUrl homeLink
     = QInfo (''Add a new server[Name=home] from URI: '' @ homeLink)"
  by code_simp+

text \<open>
  C5. In an import of a bundle that is not empty every line writes one log line, in the
  order of the bundle, and \<open>serversChanged\<close> is emitted once at the end. A line is left
  out when it is an \<open>ss://\<close> link whose decoded record has obfuscation options or when
  it is neither an \<open>ss://\<close> nor a \<open>vmess://\<close> link, and its log line is then a warning.
  Every other line, wherever it stands in the bundle, is decoded, built and stored: the
  stored profiles are those of other sources followed by one built profile for each line
  that is not left out, in order.
\<close>

theorem subscription_import_skips_bad_lines:
  fixes q :: qt and r :: rng and subsriptionServers subsriptionUrl :: string and app :: appproxy
  defines "servers \<equiv> split CHR 0x0A subsriptionServers"
  defines "removedServers \<equiv>
    fst (configurator_removeSubscriptionServers subsriptionUrl (configurator app))"
  defines "app' \<equiv> snd (addSubscriptionServers q r subsriptionServers subsriptionUrl app)"
  assumes nonempty: "subsriptionServers \<noteq> []"
  shows "effects app' = effects app @ map (lineEffect q subsriptionUrl) servers @ [ServersChanged]
       \<and> (\<forall>server \<in> set servers. lineSkipped q subsriptionUrl server \<longrightarrow>
            lineEffect q subsriptionUrl server
              \<in> {QWarningObfs (getShadowsocksServerFromUrl q server subsriptionUrl),
                  QWarning (''Ignore subscription server: '' @ server)})
       \<and> (\<exists>built.
            storedServers (configurator app') =
              filter (\<lambda>server. subscriptionSource server \<noteq> subsriptionUrl)
                (storedServers (configurator app))
              @ map (recoverAutoConnect removedServers) built
            \<and> list_all2 (builtFromLine q subsriptionUrl)
                 (filter (\<lambda>server. \<not> lineSkipped q subsriptionUrl server) servers) built)"
proof -
  from addSubscriptionServers_result [OF nonempty, of q r subsriptionUrl]
  obtain built r' where
    result: "\<And>app. addSubscriptionServers q r subsriptionServers subsriptionUrl app =
        (r', app\<lparr>configurator := (configurator app)\<lparr>storedServers :=
                  filter (\<lambda>server. subscriptionSource server \<noteq> subsriptionUrl)
                    (storedServers (configurator app))
                  @ map (recoverAutoConnect
                           (fst (configurator_removeSubscriptionServers subsriptionUrl
                                   (configurator app)))) built\<rparr>,
                effects := effects app
                  @ map (lineEffect q subsriptionUrl) (split CHR 0x0A subsriptionServers)
                  @ [ServersChanged]\<rparr>)"
    and built: "list_all2 (builtFromLine q subsriptionUrl)
        (filter (\<lambda>server. \<not> lineSkipped q subsriptionUrl server)
           (split CHR 0x0A subsriptionServers)) built"
    by blast
  have warned: "lineEffect q subsriptionUrl server
      \<in> {QWarningObfs (getShadowsocksServerFromUrl q server subsriptionUrl),
          QWarning (''Ignore subscription server: '' @ server)}"
    if "lineSkipped q subsriptionUrl server" for server
    using that by (auto simp: lineSkipped_def lineEffect_def Let_def split: if_splits)
  have stored: "storedServers (configurator app') =
      filter (\<lambda>server. subscriptionSource server \<noteq> subsriptionUrl)
        (storedServers (configurator app))
      @ map (recoverAutoConnect removedServers) built"
    unfolding app'_def removedServers_def by (simp add: result)
  have logged: "effects app' =
      effects app @ map (lineEffect q subsriptionUrl) servers @ [ServersChanged]"
    unfolding app'_def servers_def by (simp add: result)
  from logged warned stored built show ?thesis
    unfolding servers_def by blast
qed

theorem subscription_import_skips_bad_lines_witness:
  "exampleBundle \<noteq> []
   \<and> map (lineSkipped exampleQt exampleUrl) (split CHR 0x0A exampleBundle)
       = [False, True, True, False]
   \<and> effects (snd (addSubscriptionServers exampleQt exampleRand exampleBundle exampleUrl exampleApp))
       = [QInfo (''Add a new server[Name=tokyo] from URI: '' @ tokyoLink),
          QWarningObfs (getShadowsocksServerFromUrl exampleQt workLink exampleUrl),
          QWarning ''Ignore subscription server: trojan://example'',
          QInfo (''Add a new server[Name=home] from URI: '' @ homeLink),
          ServersChanged]
   \<and> (\<exists>tokyo home.
         storedServers (configurator
           (snd (addSubscriptionServers exampleQt exampleRand exampleBundle exampleUrl exampleApp)))
         = filter (\<lambda>server. subscriptionSource server \<noteq> exampleUrl)
             (storedServers (configurator exampleApp))
           @ [tokyo, home]
         \<and> profileName tokyo = ''tokyo'' \<and> profileName home = ''home'')"
proof -
  have nonempty: "exampleBundle \<noteq> []"
    by (simp add: exampleBundle_def)
  have none: "effects exampleApp = []"
    by (simp add: exampleApp_def)
  note inst = subscription_import_skips_bad_lines
    [where q = exampleQt and r = exampleRand and subsriptionUrl = exampleUrl and app = exampleApp,
     OF nonempty]
  from inst have logged:
    "effects (snd (addSubscriptionServers exampleQt exampleRand exampleBundle exampleUrl exampleApp))
       = effects exampleApp @ map (lineEffect exampleQt exampleUrl) (split CHR 0x0A exampleBundle)
         @ [ServersChanged]"
    by blast
  from inst obtain built where
    stored: "storedServers (configurator
           (snd (addSubscriptionServers exampleQt exampleRand exampleBundle exampleUrl exampleApp)))
         = filter (\<lambda>server. subscriptionSource server \<noteq> exampleUrl)
             (storedServers (configurator exampleApp))
           @ map (recoverAutoConnect
                    (fst (configurator_removeSubscriptionServers exampleUrl (configurator exampleApp))))
               built"
    and built: "list_all2 (builtFromLine exampleQt exampleUrl)
        (filter (\<lambda>server. \<not> lineSkipped exampleQt exampleUrl server)
           (split CHR 0x0A exampleBundle)) built"
    by blast
  from built obtain b1 b2 where b: "built = [b1, b2]"
      "builtFromLine exampleQt exampleUrl tokyoLink b1"
      "builtFromLine exampleQt exampleUrl homeLink b2"
    by (auto simp: example_lines example_skipped list_all2_Cons1)
  have schemes: "\<not> startsWith tokyoLink ''ss://''" "startsWith homeLink ''ss://''"
    by code_simp+
  have decoded:
    "toString (jvalue (getV2RayServerFromUrl exampleQt tokyoLink exampleUrl) ''serverName'') = ''tokyo''"
    "toString (jvalue (getShadowsocksServerFromUrl exampleQt homeLink exampleUrl) ''serverName'') = ''home''"
    by code_simp+
  from b(2,3) schemes decoded have names: "profileName b1 = ''tokyo''" "profileName b2 = ''home''"
    by (auto simp: builtFromLine_def profileName_pretty_vmess profileName_pretty_ss)
  have "\<exists>tokyo home.
         storedServers (configurator
           (snd (addSubscriptionServers exampleQt exampleRand exampleBundle exampleUrl exampleApp)))
         = filter (\<lambda>server. subscriptionSource server \<noteq> exampleUrl)
             (storedServers (configurator exampleApp))
           @ [tokyo, home]
         \<and> profileName tokyo = ''tokyo'' \<and> profileName home = ''home''"
    unfolding stored b(1) using names
    by (intro exI [of _ "recoverAutoConnect
          (fst (configurator_removeSubscriptionServers exampleUrl (configurator exampleApp))) b1"]
        exI [of _ "recoverAutoConnect
          (fst (configurator_removeSubscriptionServers exampleUrl (configurator exampleApp))) b2"])
      (simp add: recoverAutoConnect_simps)
  with nonempty logged none show ?thesis
    by (simp add: example_lines example_skipped example_effects)
qed

section \<open>Importing the same bundle twice\<close>

lemma subscription_of_decoded_ss:
  "contains (getShadowsocksServerFromUrl q server url) ''subscription''
   \<and> jvalue (getShadowsocksServerFromUrl q server url) ''subscription'' = JStr url"
  by (simp add: getShadowsocksServerFromUrl_def Let_def jvalue_object contains_object
      jvalue_jassign contains_jassign)

lemma subscription_of_decoded_vmess:
  "contains (getV2RayServerFromUrl q server url) ''subscription''
   \<and> jvalue (getV2RayServerFromUrl q server url) ''subscription'' = JStr url"
  by (simp add: getV2RayServerFromUrl_def Let_def jvalue_object contains_object)

lemma subscriptionSource_pretty_ss:
  "subscriptionSource (getPrettyShadowsocksConfig (getShadowsocksServerFromUrl q server url)) = url"
  by (simp add: subscriptionSource_def getPrettyShadowsocksConfig_def jvalue_object
      subscription_of_decoded_ss)

lemma subscriptionSource_pretty_vmess:
  "subscriptionSource (fst (getPrettyV2RayConfig r (getV2RayServerFromUrl q server url))) = url"
  by (simp add: subscriptionSource_def getPrettyV2RayConfig_def Let_def split_beta jvalue_jinsert
      jvalue_object subscription_of_decoded_vmess)

lemma subscriptionSource_built:
  "builtFromLine q url server serverConfig \<Longrightarrow> subscriptionSource serverConfig = url"
  by (auto simp: builtFromLine_def subscriptionSource_pretty_ss subscriptionSource_pretty_vmess
      split: if_splits)

text \<open>The map of the removed profiles.\<close>

lemma removed_foldl_None:
  "foldl (\<lambda>removedServers server. removedServers(profileName server \<mapsto> server)) m servers name = None
     \<longleftrightarrow> m name = None \<and> name \<notin> profileName ` set servers"
  by (induction servers arbitrary: m) auto

lemma removed_foldl_Some:
  "foldl (\<lambda>removedServers server. removedServers(profileName server \<mapsto> server)) m servers name = Some p
     \<Longrightarrow> (p \<in> set servers \<and> profileName p = name) \<or> m name = Some p"
  by (induction servers rule: rev_induct) (auto split: if_splits)

lemma removed_None:
  "fst (configurator_removeSubscriptionServers url st) name = None \<longleftrightarrow>
     \<not> (\<exists>p \<in> set (storedServers st). subscriptionSource p = url \<and> profileName p = name)"
  by (auto simp: configurator_removeSubscriptionServers_def removed_foldl_None)

lemma removed_Some:
  "fst (configurator_removeSubscriptionServers url st) name = Some p \<Longrightarrow>
     p \<in> set (storedServers st) \<and> subscriptionSource p = url \<and> profileName p = name"
  by (auto simp: configurator_removeSubscriptionServers_def dest!: removed_foldl_Some)

text \<open>A second import recovers the flags that the first one gave.\<close>

lemma recoveredFlag_after_import:
  assumes rest: "\<forall>p \<in> set rest. subscriptionSource p \<noteq> url"
    and built: "\<forall>b \<in> set built. subscriptionSource b = url"
    and b: "b \<in> set built"
  shows "recoveredFlag
           (fst (configurator_removeSubscriptionServers url
              (st\<lparr>storedServers := rest @ map (recoverAutoConnect removedServers) built\<rparr>)))
           (profileName b)
         = recoveredFlag removedServers (profileName b)"
proof -
  let ?st = "st\<lparr>storedServers := rest @ map (recoverAutoConnect removedServers) built\<rparr>"
  let ?removed = "fst (configurator_removeSubscriptionServers url ?st)"
  have "\<exists>p \<in> set (storedServers ?st). subscriptionSource p = url \<and> profileName p = profileName b"
  proof (rule bexI [of _ "recoverAutoConnect removedServers b"])
    show "subscriptionSource (recoverAutoConnect removedServers b) = url
        \<and> profileName (recoverAutoConnect removedServers b) = profileName b"
      using built b by (simp add: recoverAutoConnect_simps)
    show "recoverAutoConnect removedServers b \<in> set (storedServers ?st)"
      using b by simp
  qed
  then have "?removed (profileName b) \<noteq> None"
    unfolding removed_None by simp
  then obtain p where p: "?removed (profileName b) = Some p" by blast
  from removed_Some [OF p] have "p \<in> set (storedServers ?st)" "subscriptionSource p = url"
      "profileName p = profileName b"
    by simp_all
  with rest obtain b' where b': "b' \<in> set built" "p = recoverAutoConnect removedServers b'"
    by auto
  with \<open>profileName p = profileName b\<close> have "profileName b' = profileName b"
    by (simp add: recoverAutoConnect_simps)
  with b' have "jvalue p ''autoConnect'' = JBool (recoveredFlag removedServers (profileName b))"
    by (simp add: recoverAutoConnect_simps)
  with p show ?thesis by (simp add: recoveredFlag_def)
qed

lemma filter_after_import:
  assumes "\<forall>b \<in> set built. subscriptionSource b = url"
  shows "filter (\<lambda>server. subscriptionSource server \<noteq> url)
           (filter (\<lambda>server. subscriptionSource server \<noteq> url) servers
            @ map (recoverAutoConnect removedServers) built)
         = filter (\<lambda>server. subscriptionSource server \<noteq> url) servers"
  using assms by (simp add: filter_empty_conv recoverAutoConnect_simps)

lemma built_subscription:
  assumes "list_all2 (builtFromLine q url) servers built"
  shows "\<forall>b \<in> set built. subscriptionSource b = url"
proof
  fix b assume "b \<in> set built"
  with assms obtain server where "builtFromLine q url server b"
    by (auto simp: list_all2_conv_all_nth in_set_conv_nth)
  then show "subscriptionSource b = url" by (rule subscriptionSource_built)
qed

lemma recoverAutoConnect_cong:
  "recoveredFlag removed1 (profileName b) = recoveredFlag removed0 (profileName b) \<Longrightarrow>
   recoverAutoConnect removed1 b = recoverAutoConnect removed0 b"
  by (simp add: recoverAutoConnect_def)

lemma import_twice_same_draws:
  "configurator (snd (addSubscriptionServers q r subsriptionServers url
       (snd (addSubscriptionServers q r subsriptionServers url app))))
   = configurator (snd (addSubscriptionServers q r subsriptionServers url app))"
proof (cases "subsriptionServers = []")
  case True
  then show ?thesis by (simp add: addSubscriptionServers_def emit_def)
next
  case False
  from addSubscriptionServers_result [OF False, of q r url]
  obtain built r' where
    result: "\<And>app. addSubscriptionServers q r subsriptionServers url app =
        (r', app\<lparr>configurator := (configurator app)\<lparr>storedServers :=
                  filter (\<lambda>server. subscriptionSource server \<noteq> url) (storedServers (configurator app))
                  @ map (recoverAutoConnect
                           (fst (configurator_removeSubscriptionServers url (configurator app)))) built\<rparr>,
                effects := effects app
                  @ map (lineEffect q url) (split CHR 0x0A subsriptionServers) @ [ServersChanged]\<rparr>)"
    and built: "list_all2 (builtFromLine q url)
        (filter (\<lambda>server. \<not> lineSkipped q url server) (split CHR 0x0A subsriptionServers)) built"
    by blast
  let ?removed0 = "fst (configurator_removeSubscriptionServers url (configurator app))"
  let ?rest = "filter (\<lambda>server. subscriptionSource server \<noteq> url) (storedServers (configurator app))"
  let ?st1 = "(configurator app)\<lparr>storedServers := ?rest @ map (recoverAutoConnect ?removed0) built\<rparr>"
  let ?removed1 = "fst (configurator_removeSubscriptionServers url ?st1)"
  from built have sub: "\<forall>b \<in> set built. subscriptionSource b = url"
    by (rule built_subscription)
  have flags: "map (recoverAutoConnect ?removed1) built = map (recoverAutoConnect ?removed0) built"
  proof (rule map_cong [OF refl])
    fix b assume "b \<in> set built"
    with sub have "recoveredFlag ?removed1 (profileName b) = recoveredFlag ?removed0 (profileName b)"
      by (intro recoveredFlag_after_import) simp_all
    then show "recoverAutoConnect ?removed1 b = recoverAutoConnect ?removed0 b"
      by (rule recoverAutoConnect_cong)
  qed
  have first: "configurator (snd (addSubscriptionServers q r subsriptionServers url app)) = ?st1"
    by (simp add: result)
  have "configurator (snd (addSubscriptionServers q r subsriptionServers url
       (snd (addSubscriptionServers q r subsriptionServers url app))))
      = ?st1\<lparr>storedServers :=
            filter (\<lambda>server. subscriptionSource server \<noteq> url) (storedServers ?st1)
            @ map (recoverAutoConnect ?removed1) built\<rparr>"
    by (subst result) (simp add: first)
  also have "\<dots> = ?st1"
    using filter_after_import [OF sub, of "storedServers (configurator app)" ?removed0]
    by (simp add: flags)
  finally show ?thesis by (simp add: first)
qed

lemma pretty_without_draws:
  "\<not> usesHttpHeader cfg \<Longrightarrow>
   getPrettyV2RayConfig r cfg = (fst (getPrettyV2RayConfig r' cfg), r)"
  by (simp add: usesHttpHeader_def getPrettyV2RayConfig_def getV2RayStreamSettingsConfig_def
      Let_def split_beta)

lemma lines_without_draws:
  assumes "\<forall>server \<in> set servers. startsWith server ''vmess://'' \<longrightarrow>
             \<not> usesHttpHeader (getV2RayServerFromUrl q server url)"
  shows "snd (addSubscriptionLines q url removedServers servers (ra, app))
       = snd (addSubscriptionLines q url removedServers servers (rb, app))"
  using assms
proof (induction servers arbitrary: ra rb app)
  case Nil
  show ?case by simp
next
  case (Cons server servers)
  then have rest: "\<forall>server \<in> set servers. startsWith server ''vmess://'' \<longrightarrow>
             \<not> usesHttpHeader (getV2RayServerFromUrl q server url)"
    by simp
  have "\<exists>ra' rb' app'.
      addSubscriptionServer q url removedServers server (ra, app) = (ra', app')
      \<and> addSubscriptionServer q url removedServers server (rb, app) = (rb', app')"
  proof (cases "lineSkipped q url server")
    case True
    then show ?thesis by (simp add: addSubscriptionServer_skipped)
  next
    case kept: False
    show ?thesis
    proof (cases "startsWith server ''ss://''")
      case True
      with kept show ?thesis by (simp add: addSubscriptionServer_ss)
    next
      case False
      with kept have "startsWith server ''vmess://''"
        by (simp add: lineSkipped_def)
      with Cons.prems have plain: "\<not> usesHttpHeader (getV2RayServerFromUrl q server url)"
        by simp
      have "fst (getPrettyV2RayConfig ra (getV2RayServerFromUrl q server url))
          = fst (getPrettyV2RayConfig rb (getV2RayServerFromUrl q server url))"
        using pretty_without_draws [OF plain, of ra rb] by simp
      with kept False show ?thesis
        by (simp add: addSubscriptionServer_vmess)
    qed
  qed
  then obtain ra' rb' app' where
    "addSubscriptionServer q url removedServers server (ra, app) = (ra', app')"
    "addSubscriptionServer q url removedServers server (rb, app) = (rb', app')"
    by blast
  then show ?case
    using Cons.IH [OF rest, of ra' app' rb'] by simp
qed

lemma import_without_draws:
  assumes "\<forall>server \<in> set (split CHR 0x0A subsriptionServers). startsWith server ''vmess://'' \<longrightarrow>
             \<not> usesHttpHeader (getV2RayServerFromUrl q server url)"
  shows "snd (addSubscriptionServers q ra subsriptionServers url app)
       = snd (addSubscriptionServers q rb subsriptionServers url app)"
  using lines_without_draws [OF assms, of
      "fst (configurator_removeSubscriptionServers url (configurator app))" ra
      "app\<lparr>configurator := snd (configurator_removeSubscriptionServers url (configurator app))\<rparr>" rb]
  by (simp add: addSubscriptionServers_def Let_def split_beta)

text \<open>The flags after an import of the example bundle into the state in which the user
  has set the flag of the first profile.\<close>

lemma example_flags:
  "map (\<lambda>p. (profileName p, jvalue p ''autoConnect''))
     (storedServers (configurator
        (snd (addSubscriptionServers exampleQt exampleRand exampleBundle exampleUrl exampleFlagged))))
   = [(''hk-01'', JBool False), (''ss-01'', JBool False), (''tokyo'', JBool True),
      (''home'', JBool False)]"
  by code_simp

text \<open>Profiles that are the same but for their User-Agent strings.\<close>

lemma sameExcept_refl: "(\<And>v. R v v) \<Longrightarrow> sameExcept key R a a"
  by (simp add: sameExcept_def list_all2_same)

lemma insideObject_refl: "(\<And>a. R a a) \<Longrightarrow> insideObject R v v"
  by (simp add: insideObject_def split: json.splits)

lemma sameLength_refl: "sameLength v v"
  by (simp add: sameLength_def split: json.splits)

lemma sameButUserAgents_refl: "sameButUserAgents p p"
  unfolding sameButUserAgents_def
  by (intro sameExcept_refl insideObject_refl sameLength_refl)

lemma sameExcept_keys: "sameExcept key R a b \<Longrightarrow> map fst a = map fst b"
  unfolding sameExcept_def by (induction a b rule: list_all2_induct) auto

lemma sameExcept_contains: "sameExcept key R a b \<Longrightarrow> contains a k = contains b k"
proof -
  assume "sameExcept key R a b"
  then have "map fst a = map fst b" by (rule sameExcept_keys)
  then have "(k \<in> fst ` set a) = (k \<in> fst ` set b)" by (metis set_map)
  then show ?thesis by (simp add: contains_def map_of_eq_None_iff)
qed

lemma sameExcept_other: "sameExcept key R a b \<Longrightarrow> k \<noteq> key \<Longrightarrow> jvalue a k = jvalue b k"
  unfolding sameExcept_def jvalue_def
  by (induction a b rule: list_all2_induct) (auto split: if_splits)

lemma sameExcept_jupdate:
  "sameExcept key R a b \<Longrightarrow> k \<noteq> key \<Longrightarrow> sameExcept key R (jupdate k v a) (jupdate k v b)"
  unfolding sameExcept_def
  by (induction a b rule: list_all2_induct) auto

lemma sameExcept_jassign:
  assumes "sameExcept key R a b" and "k \<noteq> key" and "v \<noteq> JUndefined"
  shows "sameExcept key R (jassign k v a) (jassign k v b)"
proof -
  have "sameExcept key R (jref k a) (jref k b)"
    using assms(1,2) sameExcept_contains [OF assms(1), of k]
    by (simp add: jref_def sameExcept_jupdate)
  with assms(2,3) show ?thesis
    by (simp add: jassign_def jinsert_def sameExcept_jupdate)
qed

lemma sameButUserAgents_recover:
  assumes "sameButUserAgents a b"
  shows "sameButUserAgents (jassign ''autoConnect'' (JBool f) a) (jassign ''autoConnect'' (JBool f) b)"
  using assms unfolding sameButUserAgents_def by (intro sameExcept_jassign) simp_all

lemma sameButUserAgents_fields:
  "sameButUserAgents a b \<Longrightarrow> k \<noteq> ''streamSettings'' \<Longrightarrow> jvalue a k = jvalue b k"
  unfolding sameButUserAgents_def by (rule sameExcept_other)

lemma length_user_agents: "length (fst (getRandomUserAgents n r)) = n"
  by (induction n arbitrary: r) (simp_all add: split_beta)

lemma toString_eq_JStr: "toString v = s \<Longrightarrow> s \<noteq> [] \<Longrightarrow> v = JStr s"
  by (cases v) auto

lemma pretty_same_but_user_agents:
  "sameButUserAgents (fst (getPrettyV2RayConfig r cfg)) (fst (getPrettyV2RayConfig r' cfg))"
proof (cases "usesHttpHeader cfg")
  case False
  then show ?thesis
    using pretty_without_draws [OF False, of r r'] by (simp add: sameButUserAgents_refl)
next
  case True
  then have net: "jvalue cfg ''network'' = JStr ''tcp''"
    by (intro toString_eq_JStr) (simp_all add: usesHttpHeader_def)
  from True have hdr: "toLower (toString (jvalue cfg ''tcpHeaderType'')) = ''http''"
    by (simp add: usesHttpHeader_def)
  show ?thesis
    by (simp add: getPrettyV2RayConfig_def getV2RayStreamSettingsConfig_def Let_def split_beta net hdr
        tcpRequest_def tcpResponse_def object_def jinsert_def jremove_def
        sameButUserAgents_def sameExcept_def insideObject_def sameLength_def length_user_agents)
qed

text \<open>Two runs of the loop over the same lines build profiles of the same names that are
  the same but for their User-Agent strings; and the map of the removed profiles holds,
  under a name, the last stored profile of that name.\<close>

lemma builtFromLine_same:
  assumes "builtFromLine q url server a" and "builtFromLine q url server b"
  shows "sameButUserAgents a b \<and> profileName a = profileName b"
  using assms
  by (auto simp: builtFromLine_def sameButUserAgents_refl pretty_same_but_user_agents
      profileName_pretty_vmess split: if_splits)

lemma built_twice:
  assumes "list_all2 (builtFromLine q url) servers built1"
    and "list_all2 (builtFromLine q url) servers built2"
  shows "list_all2 (\<lambda>b2 b1. sameButUserAgents b2 b1 \<and> profileName b2 = profileName b1) built2 built1"
  using assms
proof (induction servers arbitrary: built1 built2)
  case Nil
  then show ?case by simp
next
  case (Cons server servers)
  then show ?case
    by (auto simp: list_all2_Cons1 dest: builtFromLine_same)
qed

lemma removed_last:
  "foldl (\<lambda>removedServers server. removedServers(profileName server \<mapsto> server)) m servers name =
     (case filter (\<lambda>p. profileName p = name) servers of
        [] \<Rightarrow> m name
      | ps \<Rightarrow> Some (last ps))"
  by (induction servers rule: rev_induct) (auto split: list.splits)

lemma removed_is_last:
  "fst (configurator_removeSubscriptionServers url st) name =
     (case filter (\<lambda>p. subscriptionSource p = url \<and> profileName p = name) (storedServers st) of
        [] \<Rightarrow> None
      | ps \<Rightarrow> Some (last ps))"
  by (simp add: configurator_removeSubscriptionServers_def removed_last conj_commute)

lemma filter_distinct_key:
  "distinct (map f xs) \<Longrightarrow> x \<in> set xs \<Longrightarrow> filter (\<lambda>y. f y = f x) xs = [x]"
proof (induction xs)
  case Nil
  then show ?case by simp
next
  case (Cons a xs)
  then show ?case by (auto simp: filter_empty_conv image_iff)
qed

lemma removed_unique:
  assumes "distinct (map profileName
             (filter (\<lambda>p. subscriptionSource p = url) (storedServers st)))"
    and "p \<in> set (storedServers st)" and "subscriptionSource p = url"
  shows "fst (configurator_removeSubscriptionServers url st) (profileName p) = Some p"
proof -
  let ?ps = "filter (\<lambda>p. subscriptionSource p = url) (storedServers st)"
  from assms(2,3) have "p \<in> set ?ps" by simp
  with assms(1) have "filter (\<lambda>p'. profileName p' = profileName p) ?ps = [p]"
    by (rule filter_distinct_key)
  then show ?thesis
    by (simp add: configurator_removeSubscriptionServers_def removed_last)
qed

lemma import_twice_any_draws:
  "list_all2 sameButUserAgents
     (storedServers (configurator (snd (addSubscriptionServers q rb subsriptionServers url
        (snd (addSubscriptionServers q ra subsriptionServers url app))))))
     (storedServers (configurator (snd (addSubscriptionServers q ra subsriptionServers url app))))
   \<and> storedAppConfig (configurator (snd (addSubscriptionServers q rb subsriptionServers url
        (snd (addSubscriptionServers q ra subsriptionServers url app)))))
     = storedAppConfig (configurator (snd (addSubscriptionServers q ra subsriptionServers url app)))"
proof (cases "subsriptionServers = []")
  case True
  then show ?thesis
    by (simp add: addSubscriptionServers_def emit_def list_all2_same sameButUserAgents_refl)
next
  case False
  from addSubscriptionServers_result [OF False, of q ra url]
  obtain built1 r1' where
    result1: "\<And>app. addSubscriptionServers q ra subsriptionServers url app =
        (r1', app\<lparr>configurator := (configurator app)\<lparr>storedServers :=
                  filter (\<lambda>server. subscriptionSource server \<noteq> url) (storedServers (configurator app))
                  @ map (recoverAutoConnect
                           (fst (configurator_removeSubscriptionServers url (configurator app)))) built1\<rparr>,
                effects := effects app
                  @ map (lineEffect q url) (split CHR 0x0A subsriptionServers) @ [ServersChanged]\<rparr>)"
    and built1: "list_all2 (builtFromLine q url)
        (filter (\<lambda>server. \<not> lineSkipped q url server) (split CHR 0x0A subsriptionServers)) built1"
    by blast
  from addSubscriptionServers_result [OF False, of q rb url]
  obtain built2 r2' where
    result2: "\<And>app. addSubscriptionServers q rb subsriptionServers url app =
        (r2', app\<lparr>configurator := (configurator app)\<lparr>storedServers :=
                  filter (\<lambda>server. subscriptionSource server \<noteq> url) (storedServers (configurator app))
                  @ map (recoverAutoConnect
                           (fst (configurator_removeSubscriptionServers url (configurator app)))) built2\<rparr>,
                effects := effects app
                  @ map (lineEffect q url) (split CHR 0x0A subsriptionServers) @ [ServersChanged]\<rparr>)"
    and built2: "list_all2 (builtFromLine q url)
        (filter (\<lambda>server. \<not> lineSkipped q url server) (split CHR 0x0A subsriptionServers)) built2"
    by blast
  let ?removed0 = "fst (configurator_removeSubscriptionServers url (configurator app))"
  let ?rest = "filter (\<lambda>server. subscriptionSource server \<noteq> url) (storedServers (configurator app))"
  let ?st1 = "(configurator app)\<lparr>storedServers := ?rest @ map (recoverAutoConnect ?removed0) built1\<rparr>"
  let ?removed1 = "fst (configurator_removeSubscriptionServers url ?st1)"
  from built1 have sub1: "\<forall>b \<in> set built1. subscriptionSource b = url"
    by (rule built_subscription)
  have first: "configurator (snd (addSubscriptionServers q ra subsriptionServers url app)) = ?st1"
    by (simp add: result1)
  have second: "configurator (snd (addSubscriptionServers q rb subsriptionServers url
       (snd (addSubscriptionServers q ra subsriptionServers url app))))
      = ?st1\<lparr>storedServers := ?rest @ map (recoverAutoConnect ?removed1) built2\<rparr>"
    using filter_after_import [OF sub1, of "storedServers (configurator app)" ?removed0]
    by (subst result2) (simp add: first)
  have pair: "sameButUserAgents (recoverAutoConnect ?removed1 b2) (recoverAutoConnect ?removed0 b1)"
    if "b1 \<in> set built1" and "sameButUserAgents b2 b1 \<and> profileName b2 = profileName b1" for b2 b1
  proof -
    from sub1 that(1)
    have "recoveredFlag ?removed1 (profileName b1) = recoveredFlag ?removed0 (profileName b1)"
      by (intro recoveredFlag_after_import) simp_all
    with that(2) show ?thesis
      by (simp add: recoverAutoConnect_def sameButUserAgents_recover)
  qed
  from built_twice [OF built1 built2]
  have "list_all2 (\<lambda>b2 b1. sameButUserAgents (recoverAutoConnect ?removed1 b2)
            (recoverAutoConnect ?removed0 b1)) built2 built1"
    by (rule list.rel_mono_strong) (rule pair)
  then have "list_all2 sameButUserAgents
      (?rest @ map (recoverAutoConnect ?removed1) built2)
      (?rest @ map (recoverAutoConnect ?removed0) built1)"
    by (intro list_all2_appendI) (simp_all add: list_all2_same sameButUserAgents_refl
        list_all2_map1 list_all2_map2)
  then show ?thesis
    by (simp add: first second)
qed

lemma names_of_same:
  "list_all2 sameButUserAgents xs ys \<Longrightarrow> map profileName xs = map profileName ys"
  by (induction xs ys rule: list_all2_induct)
    (simp_all add: profileName_def sameButUserAgents_fields)

lemma example_flagged_profile:
  "storedServers (configurator exampleFlagged) \<noteq> []"
  "subscriptionSource (last (storedServers (configurator exampleFlagged))) = exampleUrl"
  "profileName (last (storedServers (configurator exampleFlagged))) = ''tokyo''"
  "jvalue (last (storedServers (configurator exampleFlagged))) ''autoConnect'' = JBool True"
  "distinct (map profileName
     (filter (\<lambda>p. subscriptionSource p = exampleUrl) (storedServers (configurator exampleFlagged))))"
  by code_simp+

text \<open>
  C6 (as the code has it). Let a second import of the same bundle from the same URL
  follow the first, whatever the generator draws. The store after the second import has
  the same settings and the same profiles in the same order as the store after the first,
  with the same names and equal in every field but the User-Agent strings of a VMESS
  profile with tcp and the http header, which are drawn anew (lists of one length); and
  the two stores are equal when the generator repeats its draws or no \<open>vmess://\<close> line
  asks for that header. In every import the removed profiles are the stored ones whose
  source is the URL, kept under their names, the last stored one when several have one
  name; when their names are distinct each of them is kept. The stored profiles
  afterwards are those of other sources followed by the imported ones, and an imported
  profile has the \<open>autoConnect\<close> flag of the kept profile of its name, or false when
  there is none.
\<close>

theorem subscription_import_idempotent:
  fixes q :: qt and ra rb :: rng and subsriptionServers subsriptionUrl :: string and app :: appproxy
  defines "app1 \<equiv> snd (addSubscriptionServers q ra subsriptionServers subsriptionUrl app)"
  defines "app2 \<equiv> snd (addSubscriptionServers q rb subsriptionServers subsriptionUrl app1)"
  defines "removedServers \<equiv>
    fst (configurator_removeSubscriptionServers subsriptionUrl (configurator app))"
  shows "list_all2 sameButUserAgents
           (storedServers (configurator app2)) (storedServers (configurator app1))
       \<and> map profileName (storedServers (configurator app2))
           = map profileName (storedServers (configurator app1))
       \<and> storedAppConfig (configurator app2) = storedAppConfig (configurator app1)
       \<and> (rb = ra \<or>
            (\<forall>server \<in> set (split CHR 0x0A subsriptionServers). startsWith server ''vmess://'' \<longrightarrow>
               \<not> usesHttpHeader (getV2RayServerFromUrl q server subsriptionUrl))
           \<longrightarrow> configurator app2 = configurator app1)
       \<and> (\<forall>name. removedServers name =
            (case filter (\<lambda>p. subscriptionSource p = subsriptionUrl \<and> profileName p = name)
                    (storedServers (configurator app)) of
               [] \<Rightarrow> None
             | ps \<Rightarrow> Some (last ps)))
       \<and> (distinct (map profileName
              (filter (\<lambda>p. subscriptionSource p = subsriptionUrl)
                 (storedServers (configurator app))))
           \<longrightarrow> (\<forall>p \<in> set (storedServers (configurator app)).
                  subscriptionSource p = subsriptionUrl \<longrightarrow>
                  removedServers (profileName p) = Some p))
       \<and> (subsriptionServers \<noteq> [] \<longrightarrow>
            (\<exists>added.
               storedServers (configurator app1) =
                 filter (\<lambda>server. subscriptionSource server \<noteq> subsriptionUrl)
                   (storedServers (configurator app)) @ added
               \<and> (\<forall>p \<in> set added.
                     subscriptionSource p = subsriptionUrl
                     \<and> jvalue p ''autoConnect''
                         = JBool (case removedServers (profileName p) of
                                    Some removed \<Rightarrow> toBool (jvalue removed ''autoConnect'')
                                  | None \<Rightarrow> False))))"
proof -
  have similar: "list_all2 sameButUserAgents
           (storedServers (configurator app2)) (storedServers (configurator app1))"
    and settings: "storedAppConfig (configurator app2) = storedAppConfig (configurator app1)"
    unfolding app1_def app2_def
    using import_twice_any_draws [of q rb subsriptionServers subsriptionUrl ra app] by simp_all
  from similar have names: "map profileName (storedServers (configurator app2))
           = map profileName (storedServers (configurator app1))"
    by (rule names_of_same)
  have same: "configurator app2 = configurator app1"
    if draws: "rb = ra \<or>
      (\<forall>server \<in> set (split CHR 0x0A subsriptionServers). startsWith server ''vmess://'' \<longrightarrow>
         \<not> usesHttpHeader (getV2RayServerFromUrl q server subsriptionUrl))"
  proof -
    have "app2 = snd (addSubscriptionServers q ra subsriptionServers subsriptionUrl app1)"
      using draws unfolding app2_def
      by (auto intro: import_without_draws)
    then show ?thesis
      unfolding app1_def by (simp add: import_twice_same_draws)
  qed
  have kept: "removedServers name =
            (case filter (\<lambda>p. subscriptionSource p = subsriptionUrl \<and> profileName p = name)
                    (storedServers (configurator app)) of
               [] \<Rightarrow> None
             | ps \<Rightarrow> Some (last ps))" for name
    unfolding removedServers_def by (rule removed_is_last)
  have unique: "removedServers (profileName p) = Some p"
    if "distinct (map profileName
              (filter (\<lambda>p. subscriptionSource p = subsriptionUrl)
                 (storedServers (configurator app))))"
      and "p \<in> set (storedServers (configurator app))"
      and "subscriptionSource p = subsriptionUrl" for p
    unfolding removedServers_def using that by (rule removed_unique)
  have added: "\<exists>added.
               storedServers (configurator app1) =
                 filter (\<lambda>server. subscriptionSource server \<noteq> subsriptionUrl)
                   (storedServers (configurator app)) @ added
               \<and> (\<forall>p \<in> set added.
                     subscriptionSource p = subsriptionUrl
                     \<and> jvalue p ''autoConnect''
                         = JBool (case removedServers (profileName p) of
                                    Some removed \<Rightarrow> toBool (jvalue removed ''autoConnect'')
                                  | None \<Rightarrow> False))"
    if nonempty: "subsriptionServers \<noteq> []"
  proof -
    from addSubscriptionServers_result [OF nonempty, of q ra subsriptionUrl]
    obtain built r' where
      result: "\<And>app. addSubscriptionServers q ra subsriptionServers subsriptionUrl app =
          (r', app\<lparr>configurator := (configurator app)\<lparr>storedServers :=
                    filter (\<lambda>server. subscriptionSource server \<noteq> subsriptionUrl)
                      (storedServers (configurator app))
                    @ map (recoverAutoConnect
                             (fst (configurator_removeSubscriptionServers subsriptionUrl
                                     (configurator app)))) built\<rparr>,
                  effects := effects app
                    @ map (lineEffect q subsriptionUrl) (split CHR 0x0A subsriptionServers)
                    @ [ServersChanged]\<rparr>)"
      and built: "list_all2 (builtFromLine q subsriptionUrl)
          (filter (\<lambda>server. \<not> lineSkipped q subsriptionUrl server)
             (split CHR 0x0A subsriptionServers)) built"
      by blast
    from built have sub: "\<forall>b \<in> set built. subscriptionSource b = subsriptionUrl"
      by (rule built_subscription)
    have "storedServers (configurator app1) =
        filter (\<lambda>server. subscriptionSource server \<noteq> subsriptionUrl)
          (storedServers (configurator app))
        @ map (recoverAutoConnect removedServers) built"
      unfolding app1_def removedServers_def by (simp add: result)
    moreover have "\<forall>p \<in> set (map (recoverAutoConnect removedServers) built).
        subscriptionSource p = subsriptionUrl
        \<and> jvalue p ''autoConnect''
            = JBool (case removedServers (profileName p) of
                       Some removed \<Rightarrow> toBool (jvalue removed ''autoConnect'')
                     | None \<Rightarrow> False)"
      using sub by (simp add: recoverAutoConnect_simps recoveredFlag_def)
    ultimately show ?thesis by blast
  qed
  from similar names settings same kept unique added show ?thesis by blast
qed

theorem subscription_import_idempotent_witness:
  "split CHR 0x0A exampleBundle = [tokyoLink, workLink, ''trojan://example'', homeLink]
   \<and> \<not> usesHttpHeader (getV2RayServerFromUrl exampleQt tokyoLink exampleUrl)
   \<and> \<not> startsWith workLink ''vmess://''
   \<and> \<not> startsWith ''trojan://example'' ''vmess://''
   \<and> \<not> startsWith homeLink ''vmess://''
   \<and> exampleBundle \<noteq> []
   \<and> configurator (snd (addSubscriptionServers exampleQt
         (fst (addSubscriptionServers exampleQt exampleRand exampleBundle exampleUrl exampleFlagged))
         exampleBundle exampleUrl
         (snd (addSubscriptionServers exampleQt exampleRand exampleBundle exampleUrl exampleFlagged))))
     = configurator
         (snd (addSubscriptionServers exampleQt exampleRand exampleBundle exampleUrl exampleFlagged))
   \<and> distinct (map profileName
        (filter (\<lambda>p. subscriptionSource p = exampleUrl) (storedServers (configurator exampleFlagged))))
   \<and> fst (configurator_removeSubscriptionServers exampleUrl (configurator exampleFlagged)) ''tokyo''
       = Some (last (storedServers (configurator exampleFlagged)))
   \<and> jvalue (last (storedServers (configurator exampleFlagged))) ''autoConnect'' = JBool True
   \<and> map (\<lambda>p. (profileName p, jvalue p ''autoConnect''))
       (storedServers (configurator
          (snd (addSubscriptionServers exampleQt exampleRand exampleBundle exampleUrl exampleFlagged))))
     = [(''hk-01'', JBool False), (''ss-01'', JBool False), (''tokyo'', JBool True),
        (''home'', JBool False)]"
proof -
  have plain: "\<not> usesHttpHeader (getV2RayServerFromUrl exampleQt tokyoLink exampleUrl)"
    by code_simp
  have schemes: "\<not> startsWith workLink ''vmess://''" "\<not> startsWith ''trojan://example'' ''vmess://''"
      "\<not> startsWith homeLink ''vmess://''"
    by code_simp+
  have nonempty: "exampleBundle \<noteq> []"
    by (simp add: exampleBundle_def)
  have draws: "\<forall>server \<in> set (split CHR 0x0A exampleBundle). startsWith server ''vmess://'' \<longrightarrow>
       \<not> usesHttpHeader (getV2RayServerFromUrl exampleQt server exampleUrl)"
    by (simp add: example_lines plain schemes)
  have member: "last (storedServers (configurator exampleFlagged))
      \<in> set (storedServers (configurator exampleFlagged))"
    using example_flagged_profile(1) by simp
  note inst = subscription_import_idempotent
    [where q = exampleQt and ra = exampleRand and app = exampleFlagged
       and subsriptionServers = exampleBundle and subsriptionUrl = exampleUrl
       and rb = "fst (addSubscriptionServers exampleQt exampleRand exampleBundle exampleUrl
                        exampleFlagged)"]
  from inst draws
  have same: "configurator (snd (addSubscriptionServers exampleQt
         (fst (addSubscriptionServers exampleQt exampleRand exampleBundle exampleUrl exampleFlagged))
         exampleBundle exampleUrl
         (snd (addSubscriptionServers exampleQt exampleRand exampleBundle exampleUrl exampleFlagged))))
     = configurator
         (snd (addSubscriptionServers exampleQt exampleRand exampleBundle exampleUrl exampleFlagged))"
    by blast
  from inst example_flagged_profile(5) member example_flagged_profile(2)
  have "fst (configurator_removeSubscriptionServers exampleUrl (configurator exampleFlagged))
          (profileName (last (storedServers (configurator exampleFlagged))))
       = Some (last (storedServers (configurator exampleFlagged)))"
    by blast
  then have kept: "fst (configurator_removeSubscriptionServers exampleUrl (configurator exampleFlagged))
      ''tokyo'' = Some (last (storedServers (configurator exampleFlagged)))"
    by (simp add: example_flagged_profile(3))
  from example_lines plain schemes nonempty same example_flagged_profile(5) kept
    example_flagged_profile(4) example_flags
  show ?thesis by blast
qed

text \<open>A bundle of one \<open>vmess://\<close> line that asks for tcp with the http header: the
  state of the generator after the User-Agent strings were drawn, the first string of a
  drawn list, and where the list is in the built profile.\<close>

lemma rng_after_user_agents: "snd (getRandomUserAgents n r) = (\<lambda>i. r (i + 4 * n))"
proof (induction n arbitrary: r)
  case 0
  show ?case by simp
next
  case (Suc n)
  show ?case by (simp add: rand_def split_beta Suc.IH eval_nat_numeral)
qed

lemma first_user_agent:
  "fst (getRandomUserAgents (Suc n) r) =
     JStr (userAgent (r 0) (r 1) (r 2) (r 3))
       # fst (getRandomUserAgents n (\<lambda>i. r (i + 4)))"
  by (simp add: rand_def split_beta numeral_eq_Suc)

lemma pretty_with_http_header:
  assumes "usesHttpHeader cfg"
  shows "userAgentsOf (recoverAutoConnect removedServers (fst (getPrettyV2RayConfig r cfg)))
           = JArr (fst (getRandomUserAgents 24 r))"
    and "snd (getPrettyV2RayConfig r cfg) = snd (getRandomUserAgents 24 r)"
  using assms
  by (simp_all add: usesHttpHeader_def userAgentsOf_def recoverAutoConnect_def
      getPrettyV2RayConfig_def getV2RayStreamSettingsConfig_def tcpRequest_def Let_def split_beta
      jvalue_jassign jvalue_jinsert jvalue_object)

lemma import_one_vmess_line:
  assumes "server \<noteq> []" and "split CHR 0x0A server = [server]"
    and "\<not> startsWith server ''ss://''" and "startsWith server ''vmess://''"
  shows "addSubscriptionServers q r server url app =
     (snd (getPrettyV2RayConfig r (getV2RayServerFromUrl q server url)),
      app\<lparr>configurator := (configurator app)\<lparr>storedServers :=
              filter (\<lambda>server. subscriptionSource server \<noteq> url) (storedServers (configurator app))
              @ [recoverAutoConnect (fst (configurator_removeSubscriptionServers url (configurator app)))
                   (fst (getPrettyV2RayConfig r (getV2RayServerFromUrl q server url)))]\<rparr>,
           effects := effects app @ [lineEffect q url server, ServersChanged]\<rparr>)"
proof -
  from assms have kept: "\<not> lineSkipped q url server"
    by (simp add: lineSkipped_def)
  show ?thesis
    using assms(1,2)
    by (simp add: addSubscriptionServers_def Let_def split_beta emit_def
        addSubscriptionServer_vmess [OF kept assms(3)] configurator_removeSubscriptionServers_def)
qed

lemma osaka_user_agents_redrawn:
  "userAgentsOf (last (storedServers (configurator (snd (addSubscriptionServers exampleQt
       (fst (addSubscriptionServers exampleQt exampleRand osakaLink exampleUrl exampleApp))
       osakaLink exampleUrl
       (snd (addSubscriptionServers exampleQt exampleRand osakaLink exampleUrl exampleApp)))))))
     \<noteq> userAgentsOf (last (storedServers (configurator
         (snd (addSubscriptionServers exampleQt exampleRand osakaLink exampleUrl exampleApp)))))
   \<and> storedServers (configurator (snd (addSubscriptionServers exampleQt
       (fst (addSubscriptionServers exampleQt exampleRand osakaLink exampleUrl exampleApp))
       osakaLink exampleUrl
       (snd (addSubscriptionServers exampleQt exampleRand osakaLink exampleUrl exampleApp)))))
     \<noteq> storedServers (configurator
         (snd (addSubscriptionServers exampleQt exampleRand osakaLink exampleUrl exampleApp)))"
proof -
  have line: "osakaLink \<noteq> []" "split CHR 0x0A osakaLink = [osakaLink]"
      "\<not> startsWith osakaLink ''ss://''" "startsWith osakaLink ''vmess://''"
    by code_simp+
  have http: "usesHttpHeader (getV2RayServerFromUrl exampleQt osakaLink exampleUrl)"
    by code_simp
  note one = import_one_vmess_line [OF line, of exampleQt _ exampleUrl]
  note ua = pretty_with_http_header [OF http]
  let ?app1 = "snd (addSubscriptionServers exampleQt exampleRand osakaLink exampleUrl exampleApp)"
  let ?r1 = "fst (addSubscriptionServers exampleQt exampleRand osakaLink exampleUrl exampleApp)"
  let ?app2 = "snd (addSubscriptionServers exampleQt ?r1 osakaLink exampleUrl ?app1)"
  have r1: "?r1 = (\<lambda>i. exampleRand (i + 96))"
    by (simp add: one ua rng_after_user_agents)
  have ua1: "userAgentsOf (last (storedServers (configurator ?app1)))
      = JArr (fst (getRandomUserAgents 24 exampleRand))"
    by (simp add: one ua)
  have ua2: "userAgentsOf (last (storedServers (configurator ?app2)))
      = JArr (fst (getRandomUserAgents 24 (\<lambda>i. exampleRand (i + 96))))"
    unfolding r1 by (simp add: one ua)
  have agents: "userAgent (exampleRand 96) (exampleRand 97) (exampleRand 98) (exampleRand 99)
      \<noteq> userAgent (exampleRand 0) (exampleRand 1) (exampleRand 2) (exampleRand 3)"
    by code_simp
  have "fst (getRandomUserAgents (Suc 23) (\<lambda>i. exampleRand (i + 96)))
      \<noteq> fst (getRandomUserAgents (Suc 23) exampleRand)"
    unfolding first_user_agent using agents by simp
  then have differ: "userAgentsOf (last (storedServers (configurator ?app2)))
      \<noteq> userAgentsOf (last (storedServers (configurator ?app1)))"
    unfolding ua1 ua2 by simp
  then have "storedServers (configurator ?app2) \<noteq> storedServers (configurator ?app1)"
    by auto
  with differ show ?thesis by simp
qed

text \<open>The bundle \<open>twinsBundle\<close> holds one link twice, so its import stores two profiles of
  one name. After the user has set the flag of the first of them, a second import stores
  both without the flag.\<close>

lemma twins_flags:
  "map (\<lambda>p. (profileName p, jvalue p ''autoConnect'')) (storedServers (configurator exampleTwinsFlagged))
     = [(''hk-01'', JBool False), (''ss-01'', JBool False), (''tokyo'', JBool True),
        (''tokyo'', JBool False)]
   \<and> map (\<lambda>p. (profileName p, jvalue p ''autoConnect''))
       (storedServers (configurator
          (snd (addSubscriptionServers exampleQt exampleRand twinsBundle exampleUrl
                  exampleTwinsFlagged))))
     = [(''hk-01'', JBool False), (''ss-01'', JBool False), (''tokyo'', JBool False),
        (''tokyo'', JBool False)]"
  by code_simp

text \<open>
  C6 (as the claim has it). The claim says that a second import of unchanged content
  gives the same profiles with the same fields, and that a flag set between two imports
  is preserved. The bundle \<open>osakaLink\<close> is one VMESS link with the tcp transport and the
  http header: its second import, which starts with the generator as the first import
  left it, stores a profile whose list of User-Agent strings differs from the list stored
  by the first import. The bundle \<open>twinsBundle\<close> holds one link twice: the flag that the
  user has set on the first of its two profiles is false after the second import.
\<close>

theorem second_import_differs:
  "userAgentsOf (last (storedServers (configurator (snd (addSubscriptionServers exampleQt
       (fst (addSubscriptionServers exampleQt exampleRand osakaLink exampleUrl exampleApp))
       osakaLink exampleUrl
       (snd (addSubscriptionServers exampleQt exampleRand osakaLink exampleUrl exampleApp)))))))
     \<noteq> userAgentsOf (last (storedServers (configurator
         (snd (addSubscriptionServers exampleQt exampleRand osakaLink exampleUrl exampleApp)))))
   \<and> storedServers (configurator (snd (addSubscriptionServers exampleQt
       (fst (addSubscriptionServers exampleQt exampleRand osakaLink exampleUrl exampleApp))
       osakaLink exampleUrl
       (snd (addSubscriptionServers exampleQt exampleRand osakaLink exampleUrl exampleApp)))))
     \<noteq> storedServers (configurator
         (snd (addSubscriptionServers exampleQt exampleRand osakaLink exampleUrl exampleApp)))
   \<and> map (\<lambda>p. (profileName p, jvalue p ''autoConnect''))
       (storedServers (configurator exampleTwinsFlagged))
     = [(''hk-01'', JBool False), (''ss-01'', JBool False), (''tokyo'', JBool True),
        (''tokyo'', JBool False)]
   \<and> map (\<lambda>p. (profileName p, jvalue p ''autoConnect''))
       (storedServers (configurator
          (snd (addSubscriptionServers exampleQt exampleRand twinsBundle exampleUrl
                  exampleTwinsFlagged))))
     = [(''hk-01'', JBool False), (''ss-01'', JBool False), (''tokyo'', JBool False),
        (''tokyo'', JBool False)]"
  using osaka_user_agents_redrawn twins_flags by simp

end
